theory Spec2Isabelle
  imports Complex_Main "HOL-Library.AList" "HOL-Library.Sublist"
begin

section \<open>Data model\<close>

text \<open>
  The persisted rows of \<^verbatim>\<open>database/schema.sql\<close> and the TypeScript interfaces of the
  backend. Weights, percentages and reward amounts (JavaScript numbers, that is IEEE
  doubles, and SQL DECIMAL) are exact rationals: the model computes without rounding.
  Identifiers, counters and block numbers are naturals; timestamps are milliseconds. A
  nullable column or an optional field is an \<open>option\<close>.
\<close>

datatype user_role = citizen | collector | recycler

datatype verification_status = pending | verified | rejected

datatype mint_status = PENDING_MINT | MINTED | FAILED_ON_CHAIN | RETRYING

datatype weight_status = APPROVED | FLAGGED | REJECTED

text \<open>
  The message of a verification result is one of five fixed templates; three of them
  embed \<^verbatim>\<open>weightDifferencePercentage.toFixed(2)\<close>. The model keeps the template and
  the percentage it renders.
\<close>

datatype verification_message =
    NoTransactionsMsg
  | PassedMsg rat
  | RejectedMsg rat
  | FlaggedMsg rat
  | SystemErrorMsg

record user_row =
  wallet_address :: "string option"
  role :: user_role

record tx_row =
  citizen_id :: nat
  weight_grams :: rat
  status :: string
  created_at :: int

record batch_row =
  collector_id :: nat
  recycler_id :: "nat option"
  total_weight_grams :: rat
  verification_status :: verification_status
  ipfs_proof_hash :: "string option"
  proof_type :: "string option"
  verification_notes :: "string option"
  verified_at :: "int option"
  rejection_reason :: "verification_message option"
  weight_difference_percentage :: "rat option"
  blockchain_batch_id :: "string option"
  mint_status :: "mint_status option"
  tx_hash :: "string option"
  block_number :: "nat option"
  retry_count :: "nat option"
  last_attempt :: "int option"
  mint_error :: "string option"
  updated_at :: int

text \<open>The two JSON payloads of an \<^verbatim>\<open>audit_log\<close> row, as the two services build them.\<close>

datatype audit_values =
    VerificationOld rat
  | VerificationNew rat rat weight_status verification_message
  | ActivityDetails rat rat rat string "string option"

record audit_row =
  user_id :: nat
  action :: string
  table_name :: string
  record_id :: nat
  old_values :: "audit_values option"
  new_values :: "audit_values option"

text \<open>An element of the \<^verbatim>\<open>JSON_AGG\<close> array; every field is \<^verbatim>\<open>null\<close> on a row that the
  LEFT JOIN extended with NULLs.\<close>

record json_tx =
  j_id :: "nat option"
  j_citizen_id :: "nat option"
  j_weight_grams :: "rat option"
  j_status :: "string option"
  j_created_at :: "int option"

record batch_summary =
  batchId :: nat
  transactionCount :: nat
  totalOriginalWeight :: rat
  transactions :: "json_tx list"

record weight_comparison_result =
  isWithinTolerance :: bool
  weightDifferencePercentage :: rat
  originalWeight :: rat
  verifiedWeight :: rat
  wstatus :: weight_status
  message :: verification_message

record mint_request =
  req_batchId :: nat
  collectorAddress :: string
  recyclerAddress :: string
  weightAmount :: rat
  ipfsHash :: "string option"

record mint_result =
  success :: bool
  transactionHash :: "string option"
  blockNumber :: "nat option"
  gasUsed :: "string option"
  error :: "string option"
  retryCount :: "nat option"

text \<open>\<^verbatim>\<open>Partial<BatchMintStatus>\<close>: every field may be absent.\<close>

record partial_status =
  st_mintStatus :: "mint_status option"
  st_txHash :: "string option"
  st_blockNumber :: "nat option"
  st_retryCount :: "nat option"
  st_lastAttempt :: "int option"
  st_error :: "string option"

text \<open>
  A thrown JavaScript value: a \<^verbatim>\<open>BlockchainError\<close> (message, code, retryable) with its
  subclasses, or any other \<^verbatim>\<open>Error\<close> (message).
\<close>

datatype js_error =
    BlockchainError string "string option" bool
  | OtherError string

fun error_message :: "js_error \<Rightarrow> string" where
  "error_message (BlockchainError m c r) = m"
| "error_message (OtherError m) = m"

text \<open>
  What one run of the ethers calls of \<^verbatim>\<open>executeMintTransaction\<close> does: the transaction
  is confirmed (hash, block number, gas used), \<^verbatim>\<open>tx.wait\<close> yields no receipt, or one of
  the calls throws an error with an optional code and a message.
\<close>

datatype chain_outcome =
    Confirmed string nat string
  | NoReceipt
  | Thrown "string option" string

text \<open>
  The world the services run in: the tables, the outcome of each successive
  \<^verbatim>\<open>db.query\<close> call (\<open>True\<close>: the call throws) and of each successive mint attempt on
  the chain, the attempts made so far, the clock, and the identifier that
  \<^verbatim>\<open>generateBlockchainBatchId\<close> draws from the clock and \<^verbatim>\<open>Math.random\<close>.
\<close>

record world =
  users_tbl :: "nat \<rightharpoonup> user_row"
  transactions_tbl :: "nat \<rightharpoonup> tx_row"
  transaction_batch_tbl :: "(nat \<times> nat) list"
  batches_tbl :: "nat \<rightharpoonup> batch_row"
  audit_log_tbl :: "audit_row list"
  db_fault :: "nat \<Rightarrow> bool"
  db_calls :: nat
  chain :: "nat \<Rightarrow> chain_outcome"
  mint_attempts :: "mint_request list"
  now :: int
  fresh_batch_id :: string

definition db_query :: "world \<Rightarrow> bool \<times> world" where
  "db_query w = (db_fault w (db_calls w), w\<lparr>db_calls := Suc (db_calls w)\<rparr>)"

definition sleep :: "int \<Rightarrow> world \<Rightarrow> world" where
  "sleep ms w = w\<lparr>now := now w + ms\<rparr>"

text \<open>\<^verbatim>\<open>String.prototype.includes\<close>.\<close>

fun str_includes :: "string \<Rightarrow> string \<Rightarrow> bool" where
  "str_includes [] sub = (sub = [])"
| "str_includes (c # cs) sub = (prefix sub (c # cs) \<or> str_includes cs sub)"

text \<open>A natural number in a template string.\<close>

function show_nat :: "nat \<Rightarrow> string" where
  "show_nat n = (if n < 10 then [''0123456789'' ! n]
                 else show_nat (n div 10) @ [''0123456789'' ! (n mod 10)])"
  by pat_completeness auto
termination
  by (relation "measure id") auto

declare show_nat.simps [simp del]

section \<open>Policy constants\<close>

definition TOLERANCE_PERCENTAGE :: rat where
  "TOLERANCE_PERCENTAGE = 5"

definition MAX_RETRIES :: nat where
  "MAX_RETRIES = 3"

definition RETRY_DELAY :: int where
  "RETRY_DELAY = 5000"

section \<open>Verification service\<close>

text \<open>
  The rows of \<^verbatim>\<open>batches b LEFT JOIN transaction_batch tb LEFT JOIN transactions t\<close> for
  one batch: one row per link, carrying the transaction when it exists, and a single
  NULL-extended row when the batch has no link. The \<^verbatim>\<open>ORDER BY\<close> inside \<^verbatim>\<open>JSON_AGG\<close>
  only permutes the array and is left out: no caller depends on the order.
\<close>

definition join_transactions :: "world \<Rightarrow> nat \<Rightarrow> (nat \<times> tx_row) option list" where
  "join_transactions w b =
     (let links = filter (\<lambda>l. snd l = b) (transaction_batch_tbl w)
      in if links = [] then [None]
         else map (\<lambda>l. map_option (Pair (fst l)) (transactions_tbl w (fst l))) links)"

fun json_of_row :: "(nat \<times> tx_row) option \<Rightarrow> json_tx" where
  "json_of_row None =
     \<lparr>j_id = None, j_citizen_id = None, j_weight_grams = None, j_status = None,
      j_created_at = None\<rparr>"
| "json_of_row (Some (i, t)) =
     \<lparr>j_id = Some i, j_citizen_id = Some (citizen_id t), j_weight_grams = Some (weight_grams t),
      j_status = Some (status t), j_created_at = Some (created_at t)\<rparr>"

fun row_weight :: "(nat \<times> tx_row) option \<Rightarrow> rat" where
  "row_weight None = 0"
| "row_weight (Some (i, t)) = weight_grams t"

text \<open>The body of the \<^verbatim>\<open>try\<close> block of \<^verbatim>\<open>getBatchTransactionSummary\<close>.\<close>

definition getBatchTransactionSummary_try ::
    "nat \<Rightarrow> world \<Rightarrow> (js_error + batch_summary option) \<times> world" where
  "getBatchTransactionSummary_try batch_id w =
     (case db_query w of
        (True, w1) \<Rightarrow> (Inl (OtherError ''query failed''), w1)
      | (False, w1) \<Rightarrow>
          (case batches_tbl w1 batch_id of
             None \<Rightarrow> (Inr None, w1)
           | Some b \<Rightarrow>
               (let rows = join_transactions w1 batch_id
                in (Inr (Some
                     \<lparr>batchId = batch_id,
                      transactionCount = length (filter (\<lambda>r. r \<noteq> None) rows),
                      totalOriginalWeight = sum_list (map row_weight rows),
                      transactions = map json_of_row rows\<rparr>), w1))))"

definition getBatchTransactionSummary :: "nat \<Rightarrow> world \<Rightarrow> batch_summary option \<times> world" where
  "getBatchTransactionSummary batch_id w =
     (case getBatchTransactionSummary_try batch_id w of
        (Inl e, w1) \<Rightarrow> (None, w1)
      | (Inr s, w1) \<Rightarrow> (s, w1))"

record log_params =
  lp_batch_id :: nat
  lp_recycler_id :: nat
  lp_original_weight :: rat
  lp_verified_weight :: rat
  lp_weight_difference_percentage :: rat
  lp_status :: weight_status
  lp_message :: verification_message

definition logVerificationAttempt_try :: "log_params \<Rightarrow> world \<Rightarrow> (js_error + unit) \<times> world" where
  "logVerificationAttempt_try p w =
     (case db_query w of
        (True, w1) \<Rightarrow> (Inl (OtherError ''query failed''), w1)
      | (False, w1) \<Rightarrow>
          (Inr (), w1\<lparr>audit_log_tbl := audit_log_tbl w1 @
             [\<lparr>user_id = lp_recycler_id p,
               action = ''BATCH_VERIFICATION'',
               table_name = ''batches'',
               record_id = lp_batch_id p,
               old_values = Some (VerificationOld (lp_original_weight p)),
               new_values = Some (VerificationNew (lp_verified_weight p)
                 (lp_weight_difference_percentage p) (lp_status p) (lp_message p))\<rparr>]\<rparr>))"

definition logVerificationAttempt :: "log_params \<Rightarrow> world \<Rightarrow> world" where
  "logVerificationAttempt p w = snd (logVerificationAttempt_try p w)"

record verify_params =
  batch_id :: nat
  verified_weight_total :: rat
  recycler_id_param :: nat

definition rejected_result :: "rat \<Rightarrow> verification_message \<Rightarrow> weight_comparison_result" where
  "rejected_result v m =
     \<lparr>isWithinTolerance = False, weightDifferencePercentage = 100, originalWeight = 0,
      verifiedWeight = v, wstatus = REJECTED, message = m\<rparr>"

definition verifyBatchWeight_try ::
    "verify_params \<Rightarrow> world \<Rightarrow> (js_error + weight_comparison_result) \<times> world" where
  "verifyBatchWeight_try params w =
     (case getBatchTransactionSummary (batch_id params) w of
        (None, w1) \<Rightarrow>
          (Inr (rejected_result (verified_weight_total params) NoTransactionsMsg), w1)
      | (Some batchSummary, w1) \<Rightarrow>
          if transactionCount batchSummary = 0
          then (Inr (rejected_result (verified_weight_total params) NoTransactionsMsg), w1)
          else
            (let originalWeight = totalOriginalWeight batchSummary;
                 verifiedWeight = verified_weight_total params;
                 weightDifference = \<bar>originalWeight - verifiedWeight\<bar>;
                 weightDifferencePercentage =
                   (if originalWeight > 0 then (weightDifference / originalWeight) * 100
                    else 100);
                 isWithinTolerance = (weightDifferencePercentage \<le> TOLERANCE_PERCENTAGE);
                 status =
                   (if isWithinTolerance then APPROVED
                    else if weightDifferencePercentage > 20 then REJECTED else FLAGGED);
                 message =
                   (if isWithinTolerance then PassedMsg weightDifferencePercentage
                    else if weightDifferencePercentage > 20
                         then RejectedMsg weightDifferencePercentage
                         else FlaggedMsg weightDifferencePercentage);
                 w2 = logVerificationAttempt
                        \<lparr>lp_batch_id = batch_id params,
                         lp_recycler_id = recycler_id_param params,
                         lp_original_weight = originalWeight,
                         lp_verified_weight = verifiedWeight,
                         lp_weight_difference_percentage = weightDifferencePercentage,
                         lp_status = status,
                         lp_message = message\<rparr> w1
             in (Inr \<lparr>isWithinTolerance = isWithinTolerance,
                      weightDifferencePercentage = weightDifferencePercentage,
                      originalWeight = originalWeight,
                      verifiedWeight = verifiedWeight,
                      wstatus = status,
                      message = message\<rparr>, w2)))"

definition verifyBatchWeight :: "verify_params \<Rightarrow> world \<Rightarrow> weight_comparison_result \<times> world" where
  "verifyBatchWeight params w =
     (case verifyBatchWeight_try params w of
        (Inr r, w1) \<Rightarrow> (r, w1)
      | (Inl e, w1) \<Rightarrow> (rejected_result (verified_weight_total params) SystemErrorMsg, w1))"

text \<open>\<^verbatim>\<open>ToNumber\<close> of a JSON number or \<^verbatim>\<open>null\<close>, as the comparison \<^verbatim>\<open>t.weight_grams < 100\<close>
  applies it.\<close>

fun js_number :: "rat option \<Rightarrow> rat" where
  "js_number None = 0"
| "js_number (Some x) = x"

text \<open>\<^verbatim>\<open>new Date(t.created_at).getTime()\<close>; \<^verbatim>\<open>new Date(null)\<close> is the epoch.\<close>

fun js_time :: "int option \<Rightarrow> int" where
  "js_time None = 0"
| "js_time (Some t) = t"

text \<open>The \<^verbatim>\<open>Map\<close> filled by the \<^verbatim>\<open>forEach\<close> of check 3, entries in insertion order.\<close>

definition citizenCounts :: "json_tx list \<Rightarrow> (nat option \<times> nat) list" where
  "citizenCounts ts =
     fold (\<lambda>t m. AList.update (j_citizen_id t)
                    ((case map_of m (j_citizen_id t) of None \<Rightarrow> 0 | Some c \<Rightarrow> c) + 1) m)
          ts []"

text \<open>In check 4 a division by a zero count gives \<^verbatim>\<open>Infinity\<close> for a positive total
  and \<^verbatim>\<open>NaN\<close> for a zero total; only the first exceeds 10000.\<close>

record fraud_result =
  isSuspicious :: bool
  reasons :: "string list"
  riskScore :: nat

definition detectSuspiciousPatterns_try ::
    "nat \<Rightarrow> world \<Rightarrow> (js_error + fraud_result) \<times> world" where
  "detectSuspiciousPatterns_try bid w =
     (case getBatchTransactionSummary bid w of
        (None, w1) \<Rightarrow>
          (Inr \<lparr>isSuspicious = True, reasons = [''Batch not found''], riskScore = 100\<rparr>, w1)
      | (Some summary, w1) \<Rightarrow>
          (let reasons = [];
               riskScore = 0;
               smallTransactions =
                 filter (\<lambda>t. js_number (j_weight_grams t) < 100) (transactions summary);
               (reasons, riskScore) =
                 (if rat_of_nat (length smallTransactions)
                       > rat_of_nat (transactionCount summary) * (8 / 10)
                  then (reasons @ [''High concentration of small transactions (< 100g)''],
                        riskScore + 30)
                  else (reasons, riskScore));
               uniqueWeights = remdups (map j_weight_grams (transactions summary));
               (reasons, riskScore) =
                 (if length uniqueWeights = 1 \<and> transactionCount summary > 5
                  then (reasons @ [''All transactions have identical weight values''],
                        riskScore + 40)
                  else (reasons, riskScore));
               duplicateCitizens =
                 filter (\<lambda>e. snd e > 1) (citizenCounts (transactions summary));
               (reasons, riskScore) =
                 (if length duplicateCitizens > 0
                  then (reasons @ [show_nat (length duplicateCitizens) @
                          '' citizens have multiple transactions in same batch''],
                        riskScore + 20)
                  else (reasons, riskScore));
               highAverage =
                 (if transactionCount summary = 0 then totalOriginalWeight summary > 0
                  else totalOriginalWeight summary / rat_of_nat (transactionCount summary)
                         > 10000);
               (reasons, riskScore) =
                 (if highAverage
                  then (reasons @ [''Unusually high average weight per transaction''],
                        riskScore + 25)
                  else (reasons, riskScore));
               (reasons, riskScore) =
                 (if length (transactions summary) > 1
                  then (let timestamps = map (\<lambda>t. js_time (j_created_at t)) (transactions summary);
                            timeSpan = Max (set timestamps) - Min (set timestamps)
                        in if timeSpan < 60000
                           then (reasons @
                                   [''All transactions recorded within very short time period''],
                                 riskScore + 15)
                           else (reasons, riskScore))
                  else (reasons, riskScore))
           in (Inr \<lparr>isSuspicious = (riskScore > 50), reasons = reasons,
                    riskScore = riskScore\<rparr>, w1)))"

definition detectSuspiciousPatterns :: "nat \<Rightarrow> world \<Rightarrow> fraud_result \<times> world" where
  "detectSuspiciousPatterns bid w =
     (case detectSuspiciousPatterns_try bid w of
        (Inr r, w1) \<Rightarrow> (r, w1)
      | (Inl e, w1) \<Rightarrow>
          (\<lparr>isSuspicious = True, reasons = [''Error during fraud detection''],
            riskScore = 100\<rparr>, w1))"

record eiu_rewards =
  citizenRewards :: rat
  collectorBonus :: rat
  recyclerReward :: rat
  totalEIU :: rat

definition calculateEIURewards :: "rat \<Rightarrow> int \<Rightarrow> eiu_rewards" where
  "calculateEIURewards weight txCount =
     (let baseEIU = weight * (1 / 10);
          citizenRewards = baseEIU * (85 / 100);
          collectorBonus = baseEIU * (10 / 100);
          recyclerReward = baseEIU * (5 / 100);
          volumeBonus =
            (if txCount > 50 then baseEIU * (5 / 100)
             else if txCount > 20 then baseEIU * (2 / 100)
             else 0)
      in \<lparr>citizenRewards = citizenRewards + (volumeBonus * (6 / 10)),
          collectorBonus = collectorBonus + (volumeBonus * (3 / 10)),
          recyclerReward = recyclerReward + (volumeBonus * (1 / 10)),
          totalEIU = baseEIU + volumeBonus\<rparr>)"

section \<open>Blockchain service\<close>

text \<open>The \<^verbatim>\<open>catch\<close> block of \<^verbatim>\<open>executeMintTransaction\<close>: the typed error it throws for an
  error with the given code and message.\<close>

definition classify_error :: "string option \<Rightarrow> string \<Rightarrow> js_error" where
  "classify_error code msg =
     (if code = Some ''UNPREDICTABLE_GAS_LIMIT''
      then BlockchainError ''Gas estimation failed. Transaction may revert.''
             (Some ''GAS_ERROR'') True
      else if code = Some ''NONCE_EXPIRED'' \<or> code = Some ''NONCE_TOO_LOW''
      then BlockchainError (''Nonce error: '' @ msg) (Some ''NONCE_ERROR'') True
      else if str_includes msg ''revert''
      then BlockchainError (''Contract revert: '' @ msg) (Some ''CONTRACT_ERROR'') False
      else if str_includes msg ''insufficient funds''
      then BlockchainError ''Insufficient funds for gas'' (Some ''INSUFFICIENT_FUNDS'') False
      else BlockchainError (''Transaction failed: '' @ msg) (Some ''TRANSACTION_ERROR'') True)"

text \<open>One mint attempt: the request is recorded and the chain decides the outcome. A
  missing receipt throws inside the \<^verbatim>\<open>try\<close> block and is classified like any other
  error.\<close>

definition executeMintTransaction ::
    "mint_request \<Rightarrow> world \<Rightarrow> (js_error + mint_result) \<times> world" where
  "executeMintTransaction request w =
     (let w1 = w\<lparr>mint_attempts := mint_attempts w @ [request]\<rparr>
      in case chain w (length (mint_attempts w)) of
           Confirmed h b g \<Rightarrow>
             (Inr \<lparr>success = True, transactionHash = Some h, blockNumber = Some b,
                   gasUsed = Some g, error = None, retryCount = None\<rparr>, w1)
         | NoReceipt \<Rightarrow>
             (Inl (classify_error (Some ''NO_RECEIPT'') ''Transaction receipt not received''), w1)
         | Thrown code msg \<Rightarrow> (Inl (classify_error code msg), w1))"

definition getBatchForMinting :: "nat \<Rightarrow> world \<Rightarrow> batch_row option \<times> world" where
  "getBatchForMinting bid w =
     (case db_query w of
        (True, w1) \<Rightarrow> (None, w1)
      | (False, w1) \<Rightarrow>
          (case batches_tbl w1 bid of
             None \<Rightarrow> (None, w1)
           | Some b \<Rightarrow>
               if users_tbl w1 (collector_id b) \<noteq> None
                  \<and> verification_status b = verified
                  \<and> (mint_status b = None \<or> mint_status b = Some FAILED_ON_CHAIN)
               then (Some b, w1) else (None, w1)))"

text \<open>The rows of \<^verbatim>\<open>users WHERE id IN ($1, $2) AND wallet_address IS NOT NULL\<close>.\<close>

definition address_rows :: "world \<Rightarrow> nat \<Rightarrow> nat option \<Rightarrow> user_row list" where
  "address_rows w collectorId recyclerId =
     concat (map (\<lambda>i. case users_tbl w i of
                         None \<Rightarrow> []
                       | Some u \<Rightarrow> if wallet_address u = None then [] else [u])
                 (remdups (collectorId # (case recyclerId of None \<Rightarrow> [] | Some r \<Rightarrow> [r]))))"

definition getUserAddresses ::
    "nat \<Rightarrow> nat option \<Rightarrow> world \<Rightarrow> (string + string \<times> string) \<times> world" where
  "getUserAddresses collectorId recyclerId w =
     (case db_query w of
        (True, w1) \<Rightarrow> (Inl ''Database error while fetching wallet addresses'', w1)
      | (False, w1) \<Rightarrow>
          (let rows = address_rows w1 collectorId recyclerId
           in if length rows < 2
              then (Inl ''Missing wallet addresses for collector or recycler'', w1)
              else
                (case (find (\<lambda>u. role u = collector) rows, find (\<lambda>u. role u = recycler) rows) of
                   (Some c, Some r) \<Rightarrow>
                     (case (wallet_address c, wallet_address r) of
                        (Some ca, Some ra) \<Rightarrow>
                          if ca = [] \<or> ra = [] then (Inl ''Invalid wallet addresses'', w1)
                          else (Inr (ca, ra), w1)
                      | _ \<Rightarrow> (Inl ''Invalid wallet addresses'', w1))
                 | _ \<Rightarrow> (Inl ''Invalid wallet addresses'', w1))))"

text \<open>\<^verbatim>\<open>x || null\<close> on an optional string and on an optional number.\<close>

fun or_null_string :: "string option \<Rightarrow> string option" where
  "or_null_string None = None"
| "or_null_string (Some s) = (if s = [] then None else Some s)"

fun or_null_nat :: "nat option \<Rightarrow> nat option" where
  "or_null_nat None = None"
| "or_null_nat (Some n) = (if n = 0 then None else Some n)"

fun or_zero :: "nat option \<Rightarrow> nat" where
  "or_zero None = 0"
| "or_zero (Some n) = n"

text \<open>The \<^verbatim>\<open>SET\<close> clause of \<^verbatim>\<open>updateBatchMintStatus\<close> on one row.\<close>

definition set_mint_columns :: "partial_status \<Rightarrow> int \<Rightarrow> batch_row \<Rightarrow> batch_row" where
  "set_mint_columns st t b =
     b\<lparr>mint_status := st_mintStatus st,
       tx_hash := or_null_string (st_txHash st),
       block_number := or_null_nat (st_blockNumber st),
       retry_count := Some (or_zero (st_retryCount st)),
       last_attempt := st_lastAttempt st,
       mint_error := or_null_string (st_error st),
       updated_at := t\<rparr>"

definition updateBatchMintStatus ::
    "nat \<Rightarrow> partial_status \<Rightarrow> world \<Rightarrow> (js_error + unit) \<times> world" where
  "updateBatchMintStatus bid st w =
     (case db_query w of
        (True, w1) \<Rightarrow> (Inl (OtherError ''query failed''), w1)
      | (False, w1) \<Rightarrow>
          (case batches_tbl w1 bid of
             None \<Rightarrow> (Inr (), w1)
           | Some b \<Rightarrow>
               (Inr (), w1\<lparr>batches_tbl := (batches_tbl w1)(bid \<mapsto> set_mint_columns st (now w1) b)\<rparr>)))"

fun non_retryable :: "js_error \<Rightarrow> bool" where
  "non_retryable (BlockchainError m c r) = (\<not> r)"
| "non_retryable (OtherError m) = False"

text \<open>
  How one iteration of the retry loop of \<^verbatim>\<open>triggerMint\<close> ends: the function returns, an
  error leaves the \<^verbatim>\<open>catch\<close> block, the loop is left by \<^verbatim>\<open>break\<close>, or the loop goes on.
  In the last two cases \<^verbatim>\<open>retryCount\<close> has been incremented and \<^verbatim>\<open>lastError\<close> set.
\<close>

datatype attempt_outcome =
    Returned mint_result
  | Threw js_error
  | Broke js_error
  | Continued js_error

definition mint_attempt ::
    "nat \<Rightarrow> mint_request \<Rightarrow> nat \<Rightarrow> world \<Rightarrow> attempt_outcome \<times> world" where
  "mint_attempt bid request rc w =
     (case (case executeMintTransaction request w of
              (Inl e, w1) \<Rightarrow> (Inl e, w1)
            | (Inr result, w1) \<Rightarrow>
                (case updateBatchMintStatus bid
                        \<lparr>st_mintStatus = Some MINTED, st_txHash = transactionHash result,
                         st_blockNumber = blockNumber result, st_retryCount = Some rc,
                         st_lastAttempt = None, st_error = None\<rparr> w1 of
                   (Inl e, w2) \<Rightarrow> (Inl e, w2)
                 | (Inr u, w2) \<Rightarrow>
                     (Inr \<lparr>success = True, transactionHash = transactionHash result,
                           blockNumber = blockNumber result, gasUsed = gasUsed result,
                           error = None, retryCount = Some rc\<rparr>, w2))) of
        (Inr res, w1) \<Rightarrow> (Returned res, w1)
      | (Inl e, w1) \<Rightarrow>
          (let retryCount = rc + 1
           in if non_retryable e then (Broke e, w1)
              else
                (case updateBatchMintStatus bid
                        \<lparr>st_mintStatus = Some RETRYING, st_txHash = None,
                         st_blockNumber = None, st_retryCount = Some retryCount,
                         st_lastAttempt = Some (now w1),
                         st_error = Some (error_message e)\<rparr> w1 of
                   (Inl e', w2) \<Rightarrow> (Threw e', w2)
                 | (Inr u, w2) \<Rightarrow>
                     (Continued e,
                      if retryCount < MAX_RETRIES
                      then sleep (RETRY_DELAY * 2 ^ (retryCount - 1)) w2 else w2))))"

text \<open>The code after the loop (``all retries failed'').\<close>

definition mint_failed ::
    "nat \<Rightarrow> nat \<Rightarrow> js_error option \<Rightarrow> world \<Rightarrow> (js_error + mint_result) \<times> world" where
  "mint_failed bid rc lastError w =
     (case updateBatchMintStatus bid
             \<lparr>st_mintStatus = Some FAILED_ON_CHAIN, st_txHash = None, st_blockNumber = None,
              st_retryCount = Some rc, st_lastAttempt = Some (now w),
              st_error = Some (case lastError of
                                 None \<Rightarrow> ''Unknown error''
                               | Some e \<Rightarrow> if error_message e = [] then ''Unknown error''
                                           else error_message e)\<rparr> w of
        (Inl e, w1) \<Rightarrow> (Inl e, w1)
      | (Inr u, w1) \<Rightarrow>
          (Inr \<lparr>success = False, transactionHash = None, blockNumber = None, gasUsed = None,
                error = Some (''Failed after '' @ show_nat rc @ '' retries: '' @
                              (case lastError of None \<Rightarrow> ''undefined''
                                               | Some e \<Rightarrow> error_message e)),
                retryCount = Some rc\<rparr>, w1))"

function mint_loop ::
    "nat \<Rightarrow> mint_request \<Rightarrow> nat \<Rightarrow> js_error option \<Rightarrow> world
       \<Rightarrow> (js_error + mint_result) \<times> world" where
  "mint_loop bid request rc lastError w =
     (if rc < MAX_RETRIES
      then (case mint_attempt bid request rc w of
              (Returned res, w1) \<Rightarrow> (Inr res, w1)
            | (Threw e, w1) \<Rightarrow> (Inl e, w1)
            | (Broke e, w1) \<Rightarrow> mint_failed bid (Suc rc) (Some e) w1
            | (Continued e, w1) \<Rightarrow> mint_loop bid request (Suc rc) (Some e) w1)
      else mint_failed bid rc lastError w)"
  by pat_completeness auto
termination
  by (relation "measure (\<lambda>(bid, request, rc, lastError, w). MAX_RETRIES - rc)") auto

declare mint_loop.simps [simp del]

definition failure :: "string \<Rightarrow> mint_result" where
  "failure e =
     \<lparr>success = False, transactionHash = None, blockNumber = None, gasUsed = None,
      error = Some e, retryCount = None\<rparr>"

definition triggerMint :: "nat \<Rightarrow> world \<Rightarrow> (js_error + mint_result) \<times> world" where
  "triggerMint bid w =
     (case getBatchForMinting bid w of
        (None, w1) \<Rightarrow> (Inr (failure ''Batch not found or not in APPROVED status''), w1)
      | (Some batch, w1) \<Rightarrow>
          (case getUserAddresses (collector_id batch) (recycler_id batch) w1 of
             (Inl e, w2) \<Rightarrow> (Inr (failure e), w2)
           | (Inr (ca, ra), w2) \<Rightarrow>
               (case updateBatchMintStatus bid
                       \<lparr>st_mintStatus = Some PENDING_MINT, st_txHash = None,
                        st_blockNumber = None, st_retryCount = Some 0,
                        st_lastAttempt = Some (now w2), st_error = None\<rparr> w2 of
                  (Inl e, w3) \<Rightarrow> (Inl e, w3)
                | (Inr u, w3) \<Rightarrow>
                    mint_loop bid
                      \<lparr>req_batchId = bid, collectorAddress = ca, recyclerAddress = ra,
                       weightAmount = total_weight_grams batch,
                       ipfsHash = ipfs_proof_hash batch\<rparr> 0 None w3)))"

section \<open>Batch service and controller\<close>

definition getBatchById :: "nat \<Rightarrow> world \<Rightarrow> batch_row option \<times> world" where
  "getBatchById bid w =
     (case db_query w of
        (True, w1) \<Rightarrow> (None, w1)
      | (False, w1) \<Rightarrow>
          (case batches_tbl w1 bid of
             None \<Rightarrow> (None, w1)
           | Some b \<Rightarrow> if users_tbl w1 (collector_id b) \<noteq> None then (Some b, w1) else (None, w1)))"

record update_verification_params =
  uv_recycler_id :: nat
  uv_verified_weight_total :: rat
  uv_ipfs_proof_hash :: string
  uv_proof_type :: string
  uv_verification_notes :: "string option"
  uv_verification_status :: verification_status
  uv_rejection_reason :: "verification_message option"
  uv_weight_difference_percentage :: "rat option"
  uv_blockchain_batch_id :: "string option"

text \<open>The \<^verbatim>\<open>SET\<close> clause of \<^verbatim>\<open>updateBatchVerification\<close> on one row.\<close>

definition set_verification_columns ::
    "update_verification_params \<Rightarrow> int \<Rightarrow> batch_row \<Rightarrow> batch_row" where
  "set_verification_columns p t b =
     b\<lparr>recycler_id := Some (uv_recycler_id p),
       total_weight_grams := uv_verified_weight_total p,
       ipfs_proof_hash := Some (uv_ipfs_proof_hash p),
       proof_type := Some (uv_proof_type p),
       verification_notes := or_null_string (uv_verification_notes p),
       verification_status := uv_verification_status p,
       rejection_reason := uv_rejection_reason p,
       verified_at := Some t,
       blockchain_batch_id := or_null_string (uv_blockchain_batch_id p),
       updated_at := t\<rparr>"

definition updateBatchVerification ::
    "nat \<Rightarrow> update_verification_params \<Rightarrow> world \<Rightarrow> (js_error + batch_row option) \<times> world" where
  "updateBatchVerification bid p w =
     (case db_query w of
        (True, w1) \<Rightarrow> (Inl (OtherError ''query failed''), w1)
      | (False, w1) \<Rightarrow>
          (case batches_tbl w1 bid of
             None \<Rightarrow> (Inr None, w1)
           | Some b \<Rightarrow>
               (let b' = set_verification_columns p (now w1) b
                in (Inr (Some b'), w1\<lparr>batches_tbl := (batches_tbl w1)(bid \<mapsto> b')\<rparr>))))"

fun status_name :: "weight_status \<Rightarrow> string" where
  "status_name APPROVED = ''APPROVED''"
| "status_name FLAGGED = ''FLAGGED''"
| "status_name REJECTED = ''REJECTED''"

definition logBatchActivity ::
    "nat \<Rightarrow> nat \<Rightarrow> string \<Rightarrow> audit_values \<Rightarrow> world \<Rightarrow> world" where
  "logBatchActivity bid rid act details w =
     (case db_query w of
        (True, w1) \<Rightarrow> w1
      | (False, w1) \<Rightarrow>
          w1\<lparr>audit_log_tbl := audit_log_tbl w1 @
               [\<lparr>user_id = rid, action = ''BATCH_'' @ act, table_name = ''batches'',
                 record_id = bid, old_values = None, new_values = Some details\<rparr>]\<rparr>)"

record auth_user =
  au_id :: nat
  au_role :: user_role

record verify_batch_request =
  rq_user :: "auth_user option"
  rq_batch_id :: int
  rq_verified_weight_total :: rat
  rq_ipfs_proof_hash :: string
  rq_proof_type :: "string option"
  rq_verification_notes :: "string option"

text \<open>The fields of the errors that \<^verbatim>\<open>validateVerifyBatchRequest\<close> collects.\<close>

definition validateVerifyBatchRequest :: "verify_batch_request \<Rightarrow> string list" where
  "validateVerifyBatchRequest d =
     (if rq_batch_id d = 0 \<or> rq_batch_id d \<le> 0 then [''batch_id''] else []) @
     (if rq_verified_weight_total d = 0 then [''verified_weight_total'']
      else if rq_verified_weight_total d \<le> 0 then [''verified_weight_total'']
      else if rat_of_int \<lfloor>rq_verified_weight_total d\<rfloor> \<noteq> rq_verified_weight_total d
      then [''verified_weight_total''] else []) @
     (if rq_ipfs_proof_hash d = [] then [''ipfs_proof_hash'']
      else if length (rq_ipfs_proof_hash d) < 46 \<or> length (rq_ipfs_proof_hash d) > 64
      then [''ipfs_proof_hash''] else []) @
     (case rq_proof_type d of
        None \<Rightarrow> []
      | Some t \<Rightarrow> if t \<noteq> [] \<and> t \<notin> set [''photo'', ''video'', ''document'']
                  then [''proof_type''] else []) @
     (case rq_verification_notes d of
        None \<Rightarrow> []
      | Some n \<Rightarrow> if n \<noteq> [] \<and> length n > 1000 then [''verification_notes''] else [])"

record verify_response =
  http_status :: nat
  resp_batch :: "batch_row option"
  resp_verification :: "weight_comparison_result option"
  resp_mint_initiated :: bool

definition error_response :: "nat \<Rightarrow> verify_response" where
  "error_response code =
     \<lparr>http_status = code, resp_batch = None, resp_verification = None,
      resp_mint_initiated = False\<rparr>"

text \<open>The body of the \<^verbatim>\<open>try\<close> block of \<^verbatim>\<open>BatchController.verifyBatch\<close>, up to the
  response. The mint of an approved batch is started without being awaited; it runs after
  the response, as \<open>triggerMintAsync\<close> below.\<close>

definition verifyBatch_try ::
    "verify_batch_request \<Rightarrow> world \<Rightarrow> (js_error + verify_response) \<times> world" where
  "verifyBatch_try rq w =
     (case rq_user rq of
        None \<Rightarrow> (Inr (error_response 403), w)
      | Some u \<Rightarrow>
          if au_role u \<noteq> recycler then (Inr (error_response 403), w)
          else if validateVerifyBatchRequest rq \<noteq> [] then (Inr (error_response 400), w)
          else
            (let bid = nat (rq_batch_id rq)
             in case getBatchById bid w of
                  (None, w1) \<Rightarrow> (Inr (error_response 404), w1)
                | (Some batch, w1) \<Rightarrow>
                    if verification_status batch \<noteq> pending then (Inr (error_response 400), w1)
                    else
                      (case verifyBatchWeight
                              \<lparr>batch_id = bid,
                               verified_weight_total = rq_verified_weight_total rq,
                               recycler_id_param = au_id u\<rparr> w1 of
                         (verificationResult, w2) \<Rightarrow>
                           (case updateBatchVerification bid
                                   \<lparr>uv_recycler_id = au_id u,
                                    uv_verified_weight_total = rq_verified_weight_total rq,
                                    uv_ipfs_proof_hash = rq_ipfs_proof_hash rq,
                                    uv_proof_type =
                                      (case or_null_string (rq_proof_type rq) of
                                         None \<Rightarrow> ''photo'' | Some t \<Rightarrow> t),
                                    uv_verification_notes = rq_verification_notes rq,
                                    uv_verification_status =
                                      (if wstatus verificationResult = APPROVED then verified
                                       else if wstatus verificationResult = FLAGGED then pending
                                       else rejected),
                                    uv_rejection_reason =
                                      (if wstatus verificationResult = REJECTED
                                       then Some (message verificationResult) else None),
                                    uv_weight_difference_percentage =
                                      Some (weightDifferencePercentage verificationResult),
                                    uv_blockchain_batch_id =
                                      (if wstatus verificationResult = APPROVED
                                       then Some (fresh_batch_id w2) else None)\<rparr> w2 of
                              (Inl e, w3) \<Rightarrow> (Inl e, w3)
                            | (Inr updatedBatch, w3) \<Rightarrow>
                                (let w4 = logBatchActivity bid (au_id u)
                                            (status_name (wstatus verificationResult))
                                            (ActivityDetails (rq_verified_weight_total rq)
                                               (originalWeight verificationResult)
                                               (weightDifferencePercentage verificationResult)
                                               (rq_ipfs_proof_hash rq)
                                               (rq_verification_notes rq)) w3
                                 in (Inr \<lparr>http_status = 200, resp_batch = updatedBatch,
                                          resp_verification = Some verificationResult,
                                          resp_mint_initiated =
                                            (wstatus verificationResult = APPROVED)\<rparr>, w4))))))"

definition verifyBatch :: "verify_batch_request \<Rightarrow> world \<Rightarrow> verify_response \<times> world" where
  "verifyBatch rq w =
     (case verifyBatch_try rq w of
        (Inr r, w1) \<Rightarrow> (r, w1)
      | (Inl e, w1) \<Rightarrow> (error_response 500, w1))"

definition triggerMintAsync :: "nat \<Rightarrow> world \<Rightarrow> world" where
  "triggerMintAsync bid w = snd (triggerMint bid (sleep 1000 w))"

section \<open>Definitions that follow the specification\<close>

text \<open>The volume bonus in the specification's words: 5\% of the base amount above 50
  transactions, 2\% above 20 and up to 50, nothing otherwise.\<close>

definition spec_volume_bonus :: "rat \<Rightarrow> int \<Rightarrow> rat" where
  "spec_volume_bonus baseEIU n =
     (if n > 50 then baseEIU * (5 / 100)
      else if 20 < n \<and> n \<le> 50 then baseEIU * (2 / 100)
      else 0)"

text \<open>The weights of the member transactions of a batch: one per link of the batch to a
  transaction that exists.\<close>

definition member_weights :: "world \<Rightarrow> nat \<Rightarrow> rat list" where
  "member_weights w b =
     concat (map (\<lambda>l. case transactions_tbl w (fst l) of None \<Rightarrow> [] | Some t \<Rightarrow> [weight_grams t])
                 (filter (\<lambda>l. snd l = b) (transaction_batch_tbl w)))"

text \<open>The percentage difference in the specification's words.\<close>

definition spec_percent_diff :: "rat \<Rightarrow> rat \<Rightarrow> rat" where
  "spec_percent_diff orig ver = \<bar>orig - ver\<bar> / orig * 100"

text \<open>The member transactions of a batch, and the condition that every link of the batch
  points to a transaction that exists (the foreign key of \<^verbatim>\<open>transaction_batch\<close>).\<close>

definition member_transactions :: "world \<Rightarrow> nat \<Rightarrow> tx_row list" where
  "member_transactions w b =
     concat (map (\<lambda>l. case transactions_tbl w (fst l) of None \<Rightarrow> [] | Some t \<Rightarrow> [t])
                 (filter (\<lambda>l. snd l = b) (transaction_batch_tbl w)))"

definition links_resolve :: "world \<Rightarrow> nat \<Rightarrow> bool" where
  "links_resolve w b =
     list_all (\<lambda>l. transactions_tbl w (fst l) \<noteq> None)
              (filter (\<lambda>l. snd l = b) (transaction_batch_tbl w))"

text \<open>The risk score as the code computes it, over the member transactions of a batch
  that has some: 30 when more than 80\% of them weigh under 100 g, 40 when they all have
  the same weight and there are more than five, 20 when a citizen occurs twice, 25 when
  the average weight exceeds 10000 g, 15 when there are at least two and their creation
  times span less than 60000 ms.\<close>

definition spec_risk_score :: "tx_row list \<Rightarrow> nat" where
  "spec_risk_score ts =
     (if 10 * length (filter (\<lambda>t. weight_grams t < 100) ts) > 8 * length ts then 30 else 0)
   + (if list_all (\<lambda>t. weight_grams t = weight_grams (hd ts)) ts \<and> length ts > 5
      then 40 else 0)
   + (if \<not> distinct (map citizen_id ts) then 20 else 0)
   + (if sum_list (map weight_grams ts) / rat_of_nat (length ts) > 10000 then 25 else 0)
   + (if length ts > 1
         \<and> Max (set (map created_at ts)) - Min (set (map created_at ts)) < 60000
      then 15 else 0)"

text \<open>Eligibility for minting in the specification's words: the batch exists, is verified,
  and its mint status is null or FAILED\_ON\_CHAIN.\<close>

definition mint_eligible :: "world \<Rightarrow> nat \<Rightarrow> bool" where
  "mint_eligible w bid =
     (case batches_tbl w bid of
        None \<Rightarrow> False
      | Some b \<Rightarrow> verification_status b = verified
                  \<and> (mint_status b = None \<or> mint_status b = Some FAILED_ON_CHAIN))"

section \<open>Example worlds\<close>

text \<open>A collector (user 3), a recycler (user 4), batch 7 with two transactions of 600 g and
  400 g, and batch 8 with none; the database and the chain work.\<close>

definition pending_batch :: "rat \<Rightarrow> batch_row" where
  "pending_batch g =
     \<lparr>collector_id = 3, recycler_id = None, total_weight_grams = g,
      verification_status = pending, ipfs_proof_hash = None, proof_type = None,
      verification_notes = None, verified_at = None, rejection_reason = None,
      weight_difference_percentage = None, blockchain_batch_id = None,
      mint_status = None, tx_hash = None, block_number = None,
      retry_count = Some 0, last_attempt = None, mint_error = None,
      updated_at = 0\<rparr>"

definition example_world :: world where
  "example_world =
     \<lparr>users_tbl = [3 \<mapsto> \<lparr>wallet_address = Some ''0xC0'', role = collector\<rparr>,
                   4 \<mapsto> \<lparr>wallet_address = Some ''0xEC'', role = recycler\<rparr>],
      transactions_tbl =
        [10 \<mapsto> \<lparr>citizen_id = 5, weight_grams = 600, status = ''PENDING_BATCH'', created_at = 0\<rparr>,
         11 \<mapsto> \<lparr>citizen_id = 6, weight_grams = 400, status = ''PENDING_BATCH'',
                 created_at = 90000\<rparr>],
      transaction_batch_tbl = [(10, 7), (11, 7)],
      batches_tbl = [7 \<mapsto> pending_batch 1000, 8 \<mapsto> pending_batch 0],
      audit_log_tbl = [],
      db_fault = (\<lambda>n. False),
      db_calls = 0,
      chain = (\<lambda>n. Confirmed ''0xabc'' 7 ''21000''),
      mint_attempts = [],
      now = 1000,
      fresh_batch_id = ''BATCH_1000_k3x9qa''\<rparr>"

text \<open>Batch 7 with five transactions of five citizens, four of 50 g and one of 500 g,
  recorded 100 seconds apart; batch 8 with a single transaction of 500 g; batch 9 with two
  transactions of 50 g of one citizen, 50 ms apart.\<close>

definition fraud_world :: world where
  "fraud_world =
     example_world
       \<lparr>transactions_tbl :=
          [20 \<mapsto> \<lparr>citizen_id = 11, weight_grams = 50, status = ''PENDING_BATCH'', created_at = 0\<rparr>,
           21 \<mapsto> \<lparr>citizen_id = 12, weight_grams = 50, status = ''PENDING_BATCH'',
                   created_at = 100000\<rparr>,
           22 \<mapsto> \<lparr>citizen_id = 13, weight_grams = 50, status = ''PENDING_BATCH'',
                   created_at = 200000\<rparr>,
           23 \<mapsto> \<lparr>citizen_id = 14, weight_grams = 50, status = ''PENDING_BATCH'',
                   created_at = 300000\<rparr>,
           24 \<mapsto> \<lparr>citizen_id = 15, weight_grams = 500, status = ''PENDING_BATCH'',
                   created_at = 400000\<rparr>,
           30 \<mapsto> \<lparr>citizen_id = 11, weight_grams = 500, status = ''PENDING_BATCH'',
                   created_at = 0\<rparr>,
           31 \<mapsto> \<lparr>citizen_id = 11, weight_grams = 50, status = ''PENDING_BATCH'',
                   created_at = 50\<rparr>],
        transaction_batch_tbl :=
          [(20, 7), (21, 7), (22, 7), (23, 7), (24, 7), (30, 8), (20, 9), (31, 9)],
        batches_tbl := [7 \<mapsto> pending_batch 700, 8 \<mapsto> pending_batch 500,
                        9 \<mapsto> pending_batch 100]\<rparr>"

text \<open>Batch 7 verified by the recycler and not yet minted; batch 8 verified and already
  minted in block 5.\<close>

definition verified_batch :: batch_row where
  "verified_batch =
     (pending_batch 950)
       \<lparr>recycler_id := Some 4, verification_status := verified,
        ipfs_proof_hash := Some ''QmProof'', proof_type := Some ''photo'',
        verified_at := Some 900\<rparr>"

definition mint_world :: world where
  "mint_world =
     example_world
       \<lparr>batches_tbl :=
          [7 \<mapsto> verified_batch,
           8 \<mapsto> verified_batch\<lparr>mint_status := Some MINTED, tx_hash := Some ''0xold'',
                                 block_number := Some 5\<rparr>]\<rparr>"

text \<open>The same with a contract that reverts every call.\<close>

definition revert_world :: world where
  "revert_world = mint_world\<lparr>chain := (\<lambda>n. Thrown None ''execution reverted'')\<rparr>"

text \<open>The recycler's request to verify batch 7 at 950 g.\<close>

definition example_request :: verify_batch_request where
  "example_request =
     \<lparr>rq_user = Some \<lparr>au_id = 4, au_role = recycler\<rparr>,
      rq_batch_id = 7,
      rq_verified_weight_total = 950,
      rq_ipfs_proof_hash = ''QmYwAPJzv5CZsnA625s3Xf2nemtYgPpHdWEz79ojWnPbdG'',
      rq_proof_type = None,
      rq_verification_notes = None\<rparr>"

section \<open>Weight verification engine\<close>

text \<open>What the summary query computes, in terms of the member transactions.\<close>

lemma join_count:
  "length (filter (\<lambda>r. r \<noteq> None) (join_transactions w b)) = length (member_weights w b)"
proof -
  let ?ls = "filter (\<lambda>l. snd l = b) (transaction_batch_tbl w)"
  have h: "length (filter (\<lambda>r. r \<noteq> None)
          (map (\<lambda>l. map_option (Pair (fst l)) (transactions_tbl w (fst l))) ls))
        = length (concat (map (\<lambda>l. case transactions_tbl w (fst l) of None \<Rightarrow> []
                                      | Some t \<Rightarrow> [weight_grams t]) ls))" for ls
    by (induction ls) (auto split: option.splits)
  show ?thesis
  proof (cases "?ls = []")
    case True
    then show ?thesis by (simp add: join_transactions_def member_weights_def)
  next
    case False
    then have "join_transactions w b
        = map (\<lambda>l. map_option (Pair (fst l)) (transactions_tbl w (fst l))) ?ls"
      by (simp add: join_transactions_def Let_def)
    then show ?thesis unfolding member_weights_def by (simp only: h)
  qed
qed

lemma join_sum:
  "sum_list (map row_weight (join_transactions w b)) = sum_list (member_weights w b)"
proof -
  let ?ls = "filter (\<lambda>l. snd l = b) (transaction_batch_tbl w)"
  have h: "sum_list (map row_weight
          (map (\<lambda>l. map_option (Pair (fst l)) (transactions_tbl w (fst l))) ls))
        = sum_list (concat (map (\<lambda>l. case transactions_tbl w (fst l) of None \<Rightarrow> []
                                      | Some t \<Rightarrow> [weight_grams t]) ls))" for ls
    by (induction ls) (auto split: option.splits)
  show ?thesis
  proof (cases "?ls = []")
    case True
    then show ?thesis by (simp add: join_transactions_def member_weights_def)
  next
    case False
    then have "join_transactions w b
        = map (\<lambda>l. map_option (Pair (fst l)) (transactions_tbl w (fst l))) ?ls"
      by (simp add: join_transactions_def Let_def)
    then show ?thesis unfolding member_weights_def by (simp only: h)
  qed
qed

lemma join_frame [simp]:
  "join_transactions (w\<lparr>db_calls := n\<rparr>) b = join_transactions w b"
  by (simp add: join_transactions_def Let_def cong: if_cong)

lemma member_weights_frame [simp]:
  "member_weights (w\<lparr>db_calls := n\<rparr>) b = member_weights w b"
  by (simp add: member_weights_def)

lemma summary_ok:
  assumes "\<not> db_fault w (db_calls w)" and "batches_tbl w b = Some row"
  shows "getBatchTransactionSummary b w =
           (Some \<lparr>batchId = b, transactionCount = length (member_weights w b),
                   totalOriginalWeight = sum_list (member_weights w b),
                   transactions = map json_of_row (join_transactions w b)\<rparr>,
            w\<lparr>db_calls := Suc (db_calls w)\<rparr>)"
  using assms
  by (simp add: getBatchTransactionSummary_def getBatchTransactionSummary_try_def db_query_def
      Let_def join_count join_sum del: not_None_eq)

lemma sum_list_pos_rat:
  "xs \<noteq> [] \<Longrightarrow> \<forall>x\<in>set xs. (0::rat) < x \<Longrightarrow> 0 < sum_list xs"
  by (induction xs) (auto intro: add_pos_nonneg sum_list_nonneg less_imp_le)

text \<open>
  Claim C1. For every batch that exists, has at least one member transaction and only
  positive member weights, when the summary query succeeds: \<open>verifyBatchWeight\<close>
  reports the recomputed sum of the member weights as the original weight and
  \<open>|original - verified| / original * 100\<close> as the percentage difference, and the
  status is APPROVED iff the percentage is at most 5, FLAGGED iff it is above 5 and at most
  20, REJECTED iff it is above 20. In particular an original weight of 1000 with a
  verified weight between 950 and 1050 (both included) is APPROVED.
\<close>

theorem verifyBatchWeight_classification:
  assumes ok: "\<not> db_fault w (db_calls w)"
      and ex: "batches_tbl w (batch_id p) \<noteq> None"
      and ne: "member_weights w (batch_id p) \<noteq> []"
      and pos: "\<forall>x\<in>set (member_weights w (batch_id p)). 0 < x"
  shows "originalWeight (fst (verifyBatchWeight p w)) = sum_list (member_weights w (batch_id p))
       \<and> weightDifferencePercentage (fst (verifyBatchWeight p w))
           = spec_percent_diff (sum_list (member_weights w (batch_id p))) (verified_weight_total p)
       \<and> (wstatus (fst (verifyBatchWeight p w)) = APPROVED
            \<longleftrightarrow> weightDifferencePercentage (fst (verifyBatchWeight p w)) \<le> 5)
       \<and> (wstatus (fst (verifyBatchWeight p w)) = FLAGGED
            \<longleftrightarrow> 5 < weightDifferencePercentage (fst (verifyBatchWeight p w))
                \<and> weightDifferencePercentage (fst (verifyBatchWeight p w)) \<le> 20)
       \<and> (wstatus (fst (verifyBatchWeight p w)) = REJECTED
            \<longleftrightarrow> 20 < weightDifferencePercentage (fst (verifyBatchWeight p w)))
       \<and> (sum_list (member_weights w (batch_id p)) = 1000
            \<and> 950 \<le> verified_weight_total p \<and> verified_weight_total p \<le> 1050
            \<longrightarrow> wstatus (fst (verifyBatchWeight p w)) = APPROVED)"
proof -
  from ex obtain row where row: "batches_tbl w (batch_id p) = Some row" by auto
  have s: "0 < sum_list (member_weights w (batch_id p))"
    using ne pos by (rule sum_list_pos_rat)
  have n: "length (member_weights w (batch_id p)) \<noteq> 0" using ne by simp
  show ?thesis
    using s n
    by (simp add: verifyBatchWeight_def verifyBatchWeight_try_def summary_ok [OF ok row]
        Let_def spec_percent_diff_def TOLERANCE_PERCENTAGE_def abs_if divide_simps)
qed

text \<open>Batch 7 of the example world (600 g + 400 g) against a verified weight of 950 g:
  exactly 5\%, approved.\<close>

theorem verifyBatchWeight_classification_witness:
  "originalWeight (fst (verifyBatchWeight
      \<lparr>batch_id = 7, verified_weight_total = 950, recycler_id_param = 4\<rparr> example_world)) = 1000
   \<and> weightDifferencePercentage (fst (verifyBatchWeight
      \<lparr>batch_id = 7, verified_weight_total = 950, recycler_id_param = 4\<rparr> example_world)) = 5
   \<and> wstatus (fst (verifyBatchWeight
      \<lparr>batch_id = 7, verified_weight_total = 950, recycler_id_param = 4\<rparr> example_world))
       = APPROVED"
proof -
  let ?p = "\<lparr>batch_id = 7, verified_weight_total = 950, recycler_id_param = 4\<rparr>"
  have mw: "member_weights example_world 7 = [600, 400]"
    by (simp add: member_weights_def example_world_def)
  have ok: "\<not> db_fault example_world (db_calls example_world)"
    by (simp add: example_world_def)
  have ex: "batches_tbl example_world (batch_id ?p) \<noteq> None"
    by (simp add: example_world_def)
  have ne: "member_weights example_world (batch_id ?p) \<noteq> []"
    by (simp add: mw)
  have pos: "\<forall>x\<in>set (member_weights example_world (batch_id ?p)). 0 < x"
    by (simp add: mw)
  from verifyBatchWeight_classification [OF ok ex ne pos]
  show ?thesis by (simp add: mw spec_percent_diff_def)
qed

lemma getBatchTransactionSummary_eq:
  "getBatchTransactionSummary b w =
     ((if db_fault w (db_calls w) then None
       else case batches_tbl w b of
              None \<Rightarrow> None
            | Some row \<Rightarrow>
                Some \<lparr>batchId = b, transactionCount = length (member_weights w b),
                      totalOriginalWeight = sum_list (member_weights w b),
                      transactions = map json_of_row (join_transactions w b)\<rparr>),
      w\<lparr>db_calls := Suc (db_calls w)\<rparr>)"
  by (simp add: getBatchTransactionSummary_def getBatchTransactionSummary_try_def db_query_def
      Let_def join_count join_sum split: option.splits del: not_None_eq)

lemma verifyBatchWeight_try_never_throws:
  "\<exists>r. fst (verifyBatchWeight_try p w) = Inr r"
  by (simp add: verifyBatchWeight_try_def Let_def split: prod.splits option.splits)

section \<open>Degenerate batches\<close>

text \<open>
  Claim C6. For every batch with no member transaction and for every batch identifier
  that does not exist, whatever the verified weight supplied (and whether or not the
  database answers), \<open>verifyBatchWeight\<close> returns REJECTED with a percentage difference
  of 100 and an original weight of 0.
\<close>

theorem verifyBatchWeight_empty_or_missing:
  assumes "batches_tbl w (batch_id p) = None \<or> member_weights w (batch_id p) = []"
  shows "wstatus (fst (verifyBatchWeight p w)) = REJECTED
       \<and> weightDifferencePercentage (fst (verifyBatchWeight p w)) = 100
       \<and> originalWeight (fst (verifyBatchWeight p w)) = 0
       \<and> verifiedWeight (fst (verifyBatchWeight p w)) = verified_weight_total p
       \<and> \<not> isWithinTolerance (fst (verifyBatchWeight p w))"
  using assms
  by (auto simp add: verifyBatchWeight_def verifyBatchWeight_try_def
      getBatchTransactionSummary_eq rejected_result_def split: option.splits)

text \<open>Batch 8 of the example world has no transaction and batch 9 does not exist.\<close>

theorem verifyBatchWeight_empty_or_missing_witness:
  "wstatus (fst (verifyBatchWeight
      \<lparr>batch_id = 8, verified_weight_total = 500, recycler_id_param = 4\<rparr> example_world))
     = REJECTED
   \<and> weightDifferencePercentage (fst (verifyBatchWeight
      \<lparr>batch_id = 8, verified_weight_total = 500, recycler_id_param = 4\<rparr> example_world)) = 100
   \<and> originalWeight (fst (verifyBatchWeight
      \<lparr>batch_id = 9, verified_weight_total = 500, recycler_id_param = 4\<rparr> example_world)) = 0"
proof -
  have e: "member_weights example_world 8 = []"
    by (simp add: member_weights_def example_world_def)
  have m: "batches_tbl example_world 9 = None"
    by (simp add: example_world_def)
  from verifyBatchWeight_empty_or_missing
         [of example_world "\<lparr>batch_id = 8, verified_weight_total = 500, recycler_id_param = 4\<rparr>"]
       verifyBatchWeight_empty_or_missing
         [of example_world "\<lparr>batch_id = 9, verified_weight_total = 500, recycler_id_param = 4\<rparr>"]
       e m
  show ?thesis by simp
qed

section \<open>Audit log\<close>

text \<open>
  Claim C8. The claim asks for one audit row on every invocation of
  \<open>verifyBatchWeight\<close>. On the degenerate path (no batch, or a batch without member
  transactions) the function returns before the audit step: the audit log is left as it
  was.
\<close>

theorem verifyBatchWeight_degenerate_no_audit:
  assumes "batches_tbl w (batch_id p) = None \<or> member_weights w (batch_id p) = []"
  shows "audit_log_tbl (snd (verifyBatchWeight p w)) = audit_log_tbl w
       \<and> wstatus (fst (verifyBatchWeight p w)) = REJECTED"
  using assms
  by (auto simp add: verifyBatchWeight_def verifyBatchWeight_try_def
      getBatchTransactionSummary_eq rejected_result_def split: option.splits)

text \<open>Batch 8 of the example world: rejected, and the audit log is still empty.\<close>

theorem verifyBatchWeight_degenerate_no_audit_witness:
  "audit_log_tbl (snd (verifyBatchWeight
      \<lparr>batch_id = 8, verified_weight_total = 500, recycler_id_param = 4\<rparr> example_world)) = []
   \<and> wstatus (fst (verifyBatchWeight
      \<lparr>batch_id = 8, verified_weight_total = 500, recycler_id_param = 4\<rparr> example_world))
     = REJECTED"
proof -
  have e: "member_weights example_world 8 = []"
    by (simp add: member_weights_def example_world_def)
  have a: "audit_log_tbl example_world = []"
    by (simp add: example_world_def)
  from verifyBatchWeight_degenerate_no_audit
         [of example_world "\<lparr>batch_id = 8, verified_weight_total = 500, recycler_id_param = 4\<rparr>"]
       e a
  show ?thesis by simp
qed

section \<open>Failures inside the verification\<close>

text \<open>
  Claim C5, as stated, fails: when the summary is read and the audit insert throws, the
  failure is swallowed and the classification stands. In the example world with the
  second query failing, batch 7 verified at 1000 g is APPROVED although the audit row
  could not be written.
\<close>

theorem verifyBatchWeight_audit_failure_counterexample:
  "db_fault (example_world\<lparr>db_fault := (\<lambda>n. n = 1)\<rparr>) 1
   \<and> db_calls (snd (verifyBatchWeight
        \<lparr>batch_id = 7, verified_weight_total = 1000, recycler_id_param = 4\<rparr>
        (example_world\<lparr>db_fault := (\<lambda>n. n = 1)\<rparr>))) = 2
   \<and> audit_log_tbl (snd (verifyBatchWeight
        \<lparr>batch_id = 7, verified_weight_total = 1000, recycler_id_param = 4\<rparr>
        (example_world\<lparr>db_fault := (\<lambda>n. n = 1)\<rparr>))) = []
   \<and> wstatus (fst (verifyBatchWeight
        \<lparr>batch_id = 7, verified_weight_total = 1000, recycler_id_param = 4\<rparr>
        (example_world\<lparr>db_fault := (\<lambda>n. n = 1)\<rparr>))) = APPROVED"
  by (simp add: verifyBatchWeight_def verifyBatchWeight_try_def getBatchTransactionSummary_eq
      member_weights_def example_world_def Let_def TOLERANCE_PERCENTAGE_def
      logVerificationAttempt_def logVerificationAttempt_try_def db_query_def)

text \<open>
  Claim C5, amended. The body of \<open>verifyBatchWeight\<close> never throws. When the summary
  query fails, the result is REJECTED with a percentage difference of 100 and an original
  weight of 0, so a batch is approved only after a successful read. The result depends on
  the database only through that first query: a failure of the audit insert changes
  nothing in it.
\<close>

theorem verifyBatchWeight_fail_closed:
  "(\<exists>r. fst (verifyBatchWeight_try p w) = Inr r)
   \<and> (db_fault w (db_calls w) \<longrightarrow>
        fst (verifyBatchWeight p w) = rejected_result (verified_weight_total p) NoTransactionsMsg)
   \<and> (wstatus (fst (verifyBatchWeight p w)) = APPROVED \<longrightarrow> \<not> db_fault w (db_calls w))
   \<and> (f (db_calls w) = db_fault w (db_calls w) \<longrightarrow>
        fst (verifyBatchWeight p (w\<lparr>db_fault := f\<rparr>)) = fst (verifyBatchWeight p w))"
proof -
  have a: "\<exists>r. fst (verifyBatchWeight_try p w) = Inr r"
    by (rule verifyBatchWeight_try_never_throws)
  have b: "fst (verifyBatchWeight p w) = rejected_result (verified_weight_total p) NoTransactionsMsg"
    if "db_fault w (db_calls w)"
    using that
    by (simp add: verifyBatchWeight_def verifyBatchWeight_try_def getBatchTransactionSummary_eq)
  have c: "\<not> db_fault w (db_calls w)" if "wstatus (fst (verifyBatchWeight p w)) = APPROVED"
    using that b by (auto simp add: rejected_result_def)
  have mw: "member_weights (w\<lparr>db_fault := f\<rparr>) (batch_id p) = member_weights w (batch_id p)"
    by (simp add: member_weights_def)
  have d: "fst (verifyBatchWeight p (w\<lparr>db_fault := f\<rparr>)) = fst (verifyBatchWeight p w)"
    if f: "f (db_calls w) = db_fault w (db_calls w)"
  proof (cases "db_fault w (db_calls w)")
    case True
    with f show ?thesis
      by (simp add: verifyBatchWeight_def verifyBatchWeight_try_def
          getBatchTransactionSummary_eq)
  next
    case False
    show ?thesis
    proof (cases "batches_tbl w (batch_id p)")
      case None
      with f False show ?thesis
        by (simp add: verifyBatchWeight_def verifyBatchWeight_try_def
            getBatchTransactionSummary_eq)
    next
      case (Some row)
      with f False show ?thesis
        by (cases "member_weights w (batch_id p) = []")
           (simp_all add: verifyBatchWeight_def verifyBatchWeight_try_def
              getBatchTransactionSummary_eq mw Let_def)
    qed
  qed
  from a b c d show ?thesis by blast
qed

text \<open>The example world with every query failing: batch 7 at its exact weight is
  rejected with 100\%.\<close>

theorem verifyBatchWeight_fail_closed_witness:
  "fst (verifyBatchWeight
      \<lparr>batch_id = 7, verified_weight_total = 1000, recycler_id_param = 4\<rparr>
      (example_world\<lparr>db_fault := (\<lambda>n. True)\<rparr>))
     = \<lparr>isWithinTolerance = False, weightDifferencePercentage = 100, originalWeight = 0,
        verifiedWeight = 1000, wstatus = REJECTED, message = NoTransactionsMsg\<rparr>"
proof -
  have h: "db_fault (example_world\<lparr>db_fault := (\<lambda>n. True)\<rparr>)
             (db_calls (example_world\<lparr>db_fault := (\<lambda>n. True)\<rparr>))"
    by simp
  from verifyBatchWeight_fail_closed
         [of "\<lparr>batch_id = 7, verified_weight_total = 1000, recycler_id_param = 4\<rparr>"
             "example_world\<lparr>db_fault := (\<lambda>n. True)\<rparr>"] h
  show ?thesis by (simp add: rejected_result_def)
qed

section \<open>Fraud pattern detector\<close>

text \<open>The array of the summary when every link resolves, and the code's tests on it.\<close>

lemma rows_zip:
  "list_all (\<lambda>l. T (fst l) \<noteq> None) ls \<Longrightarrow>
     length (concat (map (\<lambda>l. case T (fst l) of None \<Rightarrow> [] | Some t \<Rightarrow> [t]) ls)) = length ls
     \<and> map (\<lambda>l. map_option (Pair (fst l)) (T (fst l))) ls
         = map Some (zip (map fst ls)
             (concat (map (\<lambda>l. case T (fst l) of None \<Rightarrow> [] | Some t \<Rightarrow> [t]) ls)))"
  by (induction ls) auto

lemma join_resolved:
  assumes "links_resolve w b" and "member_transactions w b \<noteq> []"
  shows "\<exists>ids. length ids = length (member_transactions w b)
           \<and> join_transactions w b = map Some (zip ids (member_transactions w b))"
proof -
  let ?ls = "filter (\<lambda>l. snd l = b) (transaction_batch_tbl w)"
  have ne: "?ls \<noteq> []"
  proof
    assume "?ls = []"
    then have "member_transactions w b = []" by (simp add: member_transactions_def)
    with assms(2) show False by simp
  qed
  from assms(1) have r: "list_all (\<lambda>l. transactions_tbl w (fst l) \<noteq> None) ?ls"
    by (simp add: links_resolve_def)
  from ne have j: "join_transactions w b
      = map (\<lambda>l. map_option (Pair (fst l)) (transactions_tbl w (fst l))) ?ls"
    by (simp add: join_transactions_def Let_def)
  from rows_zip [OF r] show ?thesis
    unfolding j member_transactions_def
    by (intro exI [of _ "map fst ?ls"]) simp
qed

lemma json_projection:
  assumes "length ids = length ts" and "\<And>i t. g (json_of_row (Some (i, t))) = h t"
  shows "map g (map json_of_row (map Some (zip ids ts))) = map h ts"
proof -
  have "map g (map json_of_row (map Some (zip ids ts))) = map h (map snd (zip ids ts))"
    by (auto simp add: assms(2) simp del: json_of_row.simps)
  also have "\<dots> = map h ts" using assms(1) by (simp add: map_snd_zip)
  finally show ?thesis .
qed

lemma length_filter_map:
  "length (filter P (map f xs)) = length (filter (\<lambda>x. P (f x)) xs)"
  by (induction xs) auto

lemma remdups_single:
  "length (remdups xs) = 1 \<longleftrightarrow> xs \<noteq> [] \<and> list_all (\<lambda>x. x = hd xs) xs"
proof
  assume "length (remdups xs) = 1"
  then have c: "card (set xs) = 1" by (simp add: length_remdups_card_conv)
  then obtain a where a: "set xs = {a}" by (auto simp add: card_1_singleton_iff)
  then have "xs \<noteq> []" by auto
  moreover from a this have "hd xs = a" by (metis hd_in_set singletonD)
  ultimately show "xs \<noteq> [] \<and> list_all (\<lambda>x. x = hd xs) xs"
    using a by (auto simp add: list_all_iff)
next
  assume h: "xs \<noteq> [] \<and> list_all (\<lambda>x. x = hd xs) xs"
  then have "set xs = {hd xs}" by (auto simp add: list_all_iff)
  then have "card (set xs) = 1" by simp
  then show "length (remdups xs) = 1" by (simp add: length_remdups_card_conv)
qed

lemma fold_counts:
  "distinct (map fst m) \<Longrightarrow>
   distinct (map fst (fold (\<lambda>t m. AList.update (f t)
                    ((case map_of m (f t) of None \<Rightarrow> 0 | Some c \<Rightarrow> c) + 1) m) ts m))
   \<and> (\<forall>k. (case map_of (fold (\<lambda>t m. AList.update (f t)
                    ((case map_of m (f t) of None \<Rightarrow> 0 | Some c \<Rightarrow> c) + 1) m) ts m) k of
             None \<Rightarrow> 0 | Some c \<Rightarrow> c)
          = count_list (map f ts) k + (case map_of m k of None \<Rightarrow> 0 | Some c \<Rightarrow> c))"
proof (induction ts arbitrary: m)
  case Nil
  then show ?case by simp
next
  case (Cons t ts)
  let ?m = "AList.update (f t) ((case map_of m (f t) of None \<Rightarrow> 0 | Some c \<Rightarrow> c) + 1) m"
  from Cons.prems have d: "distinct (map fst ?m)" by (simp add: distinct_update)
  from Cons.IH [OF d] show ?case
    by (auto simp add: update_conv')
qed

lemma distinct_count_le1: "distinct xs \<Longrightarrow> count_list xs k \<le> 1"
  by (induction xs) auto

lemma not_distinct_count: "\<not> distinct xs \<Longrightarrow> \<exists>k. 1 < count_list xs k"
proof (induction xs)
  case Nil
  then show ?case by simp
next
  case (Cons x xs)
  show ?case
  proof (cases "x \<in> set xs")
    case True
    then have "count_list xs x \<noteq> 0" by (simp add: count_list_0_iff)
    then have "1 < count_list (x # xs) x" by simp
    then show ?thesis by blast
  next
    case False
    with Cons.prems have "\<not> distinct xs" by simp
    from Cons.IH [OF this] obtain k where "1 < count_list xs k" by blast
    then have "1 < count_list (x # xs) k" by simp
    then show ?thesis by blast
  qed
qed

lemma duplicates_iff:
  "filter (\<lambda>e. snd e > 1) (citizenCounts js) \<noteq> [] \<longleftrightarrow> \<not> distinct (map j_citizen_id js)"
proof -
  let ?al = "citizenCounts js"
  have "distinct (map fst ([] :: (nat option \<times> nat) list))" by simp
  from fold_counts [OF this, of j_citizen_id js]
  have d: "distinct (map fst ?al)"
    and c: "\<And>k. (case map_of ?al k of None \<Rightarrow> 0 | Some c \<Rightarrow> c)
                 = count_list (map j_citizen_id js) k"
    by (simp_all add: citizenCounts_def)
  show ?thesis
  proof
    assume "filter (\<lambda>e. snd e > 1) ?al \<noteq> []"
    then obtain k n where kn: "(k, n) \<in> set ?al" and n: "1 < n"
      by (auto simp add: filter_empty_conv)
    from d kn have "map_of ?al k = Some n" by simp
    with c [of k] have "count_list (map j_citizen_id js) k = n" by simp
    with n show "\<not> distinct (map j_citizen_id js)"
      using distinct_count_le1 [of "map j_citizen_id js" k] by auto
  next
    assume "\<not> distinct (map j_citizen_id js)"
    from not_distinct_count [OF this] obtain k where k: "1 < count_list (map j_citizen_id js) k"
      by blast
    with c [of k] obtain n where "map_of ?al k = Some n" and "1 < n"
      by (cases "map_of ?al k") auto
    then have "(k, n) \<in> set ?al" by (auto dest: map_of_SomeD)
    with \<open>1 < n\<close> show "filter (\<lambda>e. snd e > 1) ?al \<noteq> []"
      by (auto simp add: filter_empty_conv intro!: bexI [of _ "(k, n)"])
  qed
qed


lemma member_weights_map:
  "member_weights w b = map weight_grams (member_transactions w b)"
proof -
  have "concat (map (\<lambda>l. case T (fst l) of None \<Rightarrow> [] | Some t \<Rightarrow> [weight_grams t]) ls)
        = map weight_grams (concat (map (\<lambda>l. case T (fst l) of None \<Rightarrow> [] | Some t \<Rightarrow> [t]) ls))"
    for T :: "nat \<rightharpoonup> tx_row" and ls :: "(nat \<times> nat) list"
    by (induction ls) (auto split: option.splits)
  then show ?thesis by (simp only: member_weights_def member_transactions_def)
qed

lemma eighty_percent:
  "(rat_of_nat a > rat_of_nat b * (8 / 10)) = (10 * a > 8 * b)"
proof -
  have "(rat_of_nat a > rat_of_nat b * (8 / 10)) = (rat_of_nat (8 * b) < rat_of_nat (10 * a))"
    by (simp add: field_simps)
  also have "\<dots> = (10 * a > 8 * b)" by (simp only: of_nat_less_iff)
  finally show ?thesis .
qed

lemma risk_code:
  assumes "getBatchTransactionSummary b w = (Some s, w1)"
    and "P1 = (rat_of_nat (length (filter (\<lambda>t. js_number (j_weight_grams t) < 100)
                  (transactions s))) > rat_of_nat (transactionCount s) * (8 / 10))"
    and "P2 = (length (remdups (map j_weight_grams (transactions s))) = 1
               \<and> transactionCount s > 5)"
    and "P3 = (length (filter (\<lambda>e. snd e > 1) (citizenCounts (transactions s))) > 0)"
    and "P4 = (if transactionCount s = 0 then totalOriginalWeight s > 0
               else totalOriginalWeight s / rat_of_nat (transactionCount s) > 10000)"
    and "P5 = (length (transactions s) > 1
               \<and> Max (set (map (\<lambda>t. js_time (j_created_at t)) (transactions s)))
                 - Min (set (map (\<lambda>t. js_time (j_created_at t)) (transactions s))) < 60000)"
  shows "riskScore (fst (detectSuspiciousPatterns b w))
           = (if P1 then 30 else 0) + (if P2 then 40 else 0) + (if P3 then 20 else 0)
             + (if P4 then 25 else 0) + (if P5 then 15 else 0)
       \<and> isSuspicious (fst (detectSuspiciousPatterns b w))
           = (riskScore (fst (detectSuspiciousPatterns b w)) > 50)"
proof -
  have snd_if: "snd (if c then p else q) = (if c then snd p else snd q)"
    for c and p q :: "string list \<times> nat"
    by simp
  have add_if: "(if c then n + k else n) = n + (if c then k else 0)" for c and n k :: nat
    by simp
  have add_if2: "(if c then n + (if d then k else 0) else n) = n + (if c \<and> d then k else 0)"
    for c d and n k :: nat
    by simp
  show ?thesis
    unfolding assms(2-6)
    by (simp add: detectSuspiciousPatterns_def detectSuspiciousPatterns_try_def assms(1)
        Let_def split_def snd_if add_if add_if2 split del: if_split cong: if_cong)
       simp
qed

lemma risk_score_members:
  assumes ok: "\<not> db_fault w (db_calls w)"
      and ex: "batches_tbl w b \<noteq> None"
      and lr: "links_resolve w b"
      and ne: "member_transactions w b \<noteq> []"
  shows "riskScore (fst (detectSuspiciousPatterns b w)) = spec_risk_score (member_transactions w b)
       \<and> isSuspicious (fst (detectSuspiciousPatterns b w))
           = (spec_risk_score (member_transactions w b) > 50)"
proof -
  let ?ts = "member_transactions w b"
  from ex obtain row where row: "batches_tbl w b = Some row" by auto
  from join_resolved [OF lr ne] obtain ids where
    ids: "length ids = length ?ts" and j: "join_transactions w b = map Some (zip ids ?ts)"
    by blast
  define js where "js = map json_of_row (join_transactions w b)"
  have js: "js = map json_of_row (map Some (zip ids ?ts))" by (simp only: js_def j)
  have f1: "map j_weight_grams js = map (\<lambda>t. Some (weight_grams t)) ?ts"
    unfolding js by (rule json_projection [OF ids]) simp
  have f2: "map j_citizen_id js = map (\<lambda>t. Some (citizen_id t)) ?ts"
    unfolding js by (rule json_projection [OF ids]) simp
  have f3: "map (\<lambda>t. js_time (j_created_at t)) js = map created_at ?ts"
    unfolding js by (rule json_projection [OF ids]) simp
  have f4: "length js = length ?ts"
    using arg_cong [OF f1, of length] by simp
  have f5: "length (filter (\<lambda>t. js_number (j_weight_grams t) < 100) js)
            = length (filter (\<lambda>t. weight_grams t < 100) ?ts)"
  proof -
    have "length (filter (\<lambda>t. js_number (j_weight_grams t) < 100) js)
          = length (filter (\<lambda>x. js_number x < 100) (map j_weight_grams js))"
      by (simp only: length_filter_map)
    also have "\<dots> = length (filter (\<lambda>t. weight_grams t < 100) ?ts)"
      by (simp only: f1 length_filter_map js_number.simps)
    finally show ?thesis .
  qed
  let ?s = "\<lparr>batchId = b, transactionCount = length (member_weights w b),
             totalOriginalWeight = sum_list (member_weights w b), transactions = js\<rparr>"
  have summary: "getBatchTransactionSummary b w = (Some ?s, w\<lparr>db_calls := Suc (db_calls w)\<rparr>)"
    using ok row by (simp add: getBatchTransactionSummary_eq js_def)
  have n: "length (member_weights w b) = length ?ts"
    by (simp add: member_weights_map)
  have p1: "(10 * length (filter (\<lambda>t. weight_grams t < 100) ?ts) > 8 * length ?ts)
      = (rat_of_nat (length (filter (\<lambda>t. js_number (j_weight_grams t) < 100)
                  (transactions ?s))) > rat_of_nat (transactionCount ?s) * (8 / 10))"
    by (simp only: eighty_percent batch_summary.simps f5 n)
  have p2: "(list_all (\<lambda>t. weight_grams t = weight_grams (hd ?ts)) ?ts \<and> length ?ts > 5)
      = (length (remdups (map j_weight_grams (transactions ?s))) = 1
               \<and> transactionCount ?s > 5)"
    using ne by (simp add: f1 n remdups_single [unfolded One_nat_def] hd_map list_all_iff)
  have p3: "(\<not> distinct (map citizen_id ?ts))
      = (length (filter (\<lambda>e. snd e > 1) (citizenCounts (transactions ?s))) > 0)"
  proof -
    have ds: "distinct (map Some ys) = distinct ys" for ys :: "nat list"
      by (induction ys) auto
    have "map j_citizen_id js = map Some (map citizen_id ?ts)" by (simp add: f2)
    then have "distinct (map j_citizen_id js) = distinct (map citizen_id ?ts)"
      by (simp only: ds)
    then show ?thesis using duplicates_iff [of js] by simp
  qed
  have p4: "(sum_list (map weight_grams ?ts) / rat_of_nat (length ?ts) > 10000)
      = (if transactionCount ?s = 0 then totalOriginalWeight ?s > 0
               else totalOriginalWeight ?s / rat_of_nat (transactionCount ?s) > 10000)"
    using ne by (simp add: member_weights_map)
  have p5: "(length ?ts > 1
         \<and> Max (set (map created_at ?ts)) - Min (set (map created_at ?ts)) < 60000)
      = (length (transactions ?s) > 1
               \<and> Max (set (map (\<lambda>t. js_time (j_created_at t)) (transactions ?s)))
                 - Min (set (map (\<lambda>t. js_time (j_created_at t)) (transactions ?s))) < 60000)"
    by (simp only: batch_summary.simps f3 f4)
  from risk_code [OF summary p1 p2 p3 p4 p5]
  show ?thesis by (simp only: spec_risk_score_def)
qed

text \<open>
  Claim C9, as stated, fails twice. In batch 7 of the second example world exactly 80\% of
  the transactions (four of five) weigh under 100 g, and the code adds nothing: it asks
  for more than 80\%. In batch 8 the only transaction spans 0 ms, and the code adds
  nothing: it compares the time span only when there are at least two transactions.
\<close>

theorem detectSuspiciousPatterns_counterexample:
  "10 * length (filter (\<lambda>t. weight_grams t < 100) (member_transactions fraud_world 7))
     = 8 * length (member_transactions fraud_world 7)
   \<and> riskScore (fst (detectSuspiciousPatterns 7 fraud_world)) = 0
   \<and> Max (set (map created_at (member_transactions fraud_world 8)))
       - Min (set (map created_at (member_transactions fraud_world 8))) < 60000
   \<and> riskScore (fst (detectSuspiciousPatterns 8 fraud_world)) = 0"
proof -
  have ok: "\<not> db_fault fraud_world (db_calls fraud_world)"
    by (simp add: fraud_world_def example_world_def)
  have m7: "member_transactions fraud_world 7 =
      [\<lparr>citizen_id = 11, weight_grams = 50, status = ''PENDING_BATCH'', created_at = 0\<rparr>,
       \<lparr>citizen_id = 12, weight_grams = 50, status = ''PENDING_BATCH'', created_at = 100000\<rparr>,
       \<lparr>citizen_id = 13, weight_grams = 50, status = ''PENDING_BATCH'', created_at = 200000\<rparr>,
       \<lparr>citizen_id = 14, weight_grams = 50, status = ''PENDING_BATCH'', created_at = 300000\<rparr>,
       \<lparr>citizen_id = 15, weight_grams = 500, status = ''PENDING_BATCH'', created_at = 400000\<rparr>]"
    by (simp add: member_transactions_def fraud_world_def example_world_def)
  have m8: "member_transactions fraud_world 8 =
      [\<lparr>citizen_id = 11, weight_grams = 500, status = ''PENDING_BATCH'', created_at = 0\<rparr>]"
    by (simp add: member_transactions_def fraud_world_def example_world_def)
  have e7: "batches_tbl fraud_world 7 \<noteq> None" and e8: "batches_tbl fraud_world 8 \<noteq> None"
    by (simp_all add: fraud_world_def example_world_def)
  have l7: "links_resolve fraud_world 7" and l8: "links_resolve fraud_world 8"
    by (simp_all add: links_resolve_def fraud_world_def example_world_def)
  have n7: "member_transactions fraud_world 7 \<noteq> []" by (simp add: m7)
  have n8: "member_transactions fraud_world 8 \<noteq> []" by (simp add: m8)
  have s7: "spec_risk_score (member_transactions fraud_world 7) = 0"
    by (simp add: m7 spec_risk_score_def)
  have s8: "spec_risk_score (member_transactions fraud_world 8) = 0"
    by (simp add: m8 spec_risk_score_def)
  from risk_score_members [OF ok e7 l7 n7] risk_score_members [OF ok e8 l8 n8] s7 s8
  show ?thesis by (simp add: m7 m8)
qed

text \<open>
  Claim C9, amended. A batch that is not found yields a risk score of 100 with the single
  reason ``Batch not found'' and is suspicious. For every existing batch with at least one
  member transaction (every link resolving, the summary query succeeding) the risk score
  is the sum of: 30 when more than 80\% of the transactions weigh under 100 g, 40 when all
  share one weight and there are more than five, 20 (flat) when some citizen occurs more
  than once, 25 when the average weight exceeds 10000 g, 15 when there are at least two
  transactions and their creation times span less than 60 seconds; the batch is
  suspicious iff the score exceeds 50.
\<close>

theorem detectSuspiciousPatterns_score:
  "(batches_tbl w b = None \<longrightarrow>
      fst (detectSuspiciousPatterns b w)
        = \<lparr>isSuspicious = True, reasons = [''Batch not found''], riskScore = 100\<rparr>)
   \<and> (\<not> db_fault w (db_calls w) \<and> batches_tbl w b \<noteq> None \<and> links_resolve w b
        \<and> member_transactions w b \<noteq> [] \<longrightarrow>
      riskScore (fst (detectSuspiciousPatterns b w)) = spec_risk_score (member_transactions w b)
      \<and> isSuspicious (fst (detectSuspiciousPatterns b w))
          = (spec_risk_score (member_transactions w b) > 50))"
proof (rule conjI; rule impI)
  assume "batches_tbl w b = None"
  then show "fst (detectSuspiciousPatterns b w)
        = \<lparr>isSuspicious = True, reasons = [''Batch not found''], riskScore = 100\<rparr>"
    by (simp add: detectSuspiciousPatterns_def detectSuspiciousPatterns_try_def
        getBatchTransactionSummary_eq)
next
  assume "\<not> db_fault w (db_calls w) \<and> batches_tbl w b \<noteq> None \<and> links_resolve w b
        \<and> member_transactions w b \<noteq> []"
  then show "riskScore (fst (detectSuspiciousPatterns b w))
        = spec_risk_score (member_transactions w b)
      \<and> isSuspicious (fst (detectSuspiciousPatterns b w))
          = (spec_risk_score (member_transactions w b) > 50)"
    using risk_score_members [of w b] by blast
qed

text \<open>Batch 9 of the second example world: small weights (30), a repeated citizen (20)
  and a short time span (15) add up to 65; batch 10 does not exist.\<close>

theorem detectSuspiciousPatterns_score_witness:
  "riskScore (fst (detectSuspiciousPatterns 9 fraud_world)) = 65
   \<and> isSuspicious (fst (detectSuspiciousPatterns 9 fraud_world))
   \<and> fst (detectSuspiciousPatterns 10 fraud_world)
       = \<lparr>isSuspicious = True, reasons = [''Batch not found''], riskScore = 100\<rparr>"
proof -
  have ok: "\<not> db_fault fraud_world (db_calls fraud_world)"
    by (simp add: fraud_world_def example_world_def)
  have m9: "member_transactions fraud_world 9 =
      [\<lparr>citizen_id = 11, weight_grams = 50, status = ''PENDING_BATCH'', created_at = 0\<rparr>,
       \<lparr>citizen_id = 11, weight_grams = 50, status = ''PENDING_BATCH'', created_at = 50\<rparr>]"
    by (simp add: member_transactions_def fraud_world_def example_world_def)
  have e9: "batches_tbl fraud_world 9 \<noteq> None" and e10: "batches_tbl fraud_world 10 = None"
    by (simp_all add: fraud_world_def example_world_def)
  have l9: "links_resolve fraud_world 9"
    by (simp add: links_resolve_def fraud_world_def example_world_def)
  have n9: "member_transactions fraud_world 9 \<noteq> []" by (simp add: m9)
  have s9: "spec_risk_score (member_transactions fraud_world 9) = 65"
    by (simp add: m9 spec_risk_score_def)
  from detectSuspiciousPatterns_score [of fraud_world 9]
       detectSuspiciousPatterns_score [of fraud_world 10] ok e9 e10 l9 n9 s9
  show ?thesis by simp
qed

section \<open>Persisting the mint status\<close>

text \<open>
  Claim C10. A call of \<open>updateBatchMintStatus\<close> on an existing batch, the query
  succeeding, is one query that overwrites the six mint columns of that row: every field
  absent from the partial status is written as NULL, an absent retry count as 0. The
  other columns of the row (but \<^verbatim>\<open>updated_at\<close>) and the other rows are unchanged.
\<close>

theorem updateBatchMintStatus_overwrites:
  assumes ok: "\<not> db_fault w (db_calls w)" and row: "batches_tbl w bid = Some b"
  shows "\<exists>b'. updateBatchMintStatus bid st w
                = (Inr (), w\<lparr>db_calls := Suc (db_calls w),
                              batches_tbl := (batches_tbl w)(bid \<mapsto> b')\<rparr>)
            \<and> mint_status b' = st_mintStatus st
            \<and> tx_hash b' = or_null_string (st_txHash st)
            \<and> block_number b' = or_null_nat (st_blockNumber st)
            \<and> retry_count b' = Some (or_zero (st_retryCount st))
            \<and> last_attempt b' = st_lastAttempt st
            \<and> mint_error b' = or_null_string (st_error st)
            \<and> (st_mintStatus st = None \<longrightarrow> mint_status b' = None)
            \<and> (st_txHash st = None \<longrightarrow> tx_hash b' = None)
            \<and> (st_blockNumber st = None \<longrightarrow> block_number b' = None)
            \<and> (st_retryCount st = None \<longrightarrow> retry_count b' = Some 0)
            \<and> (st_lastAttempt st = None \<longrightarrow> last_attempt b' = None)
            \<and> (st_error st = None \<longrightarrow> mint_error b' = None)
            \<and> b'\<lparr>mint_status := mint_status b, tx_hash := tx_hash b,
                  block_number := block_number b, retry_count := retry_count b,
                  last_attempt := last_attempt b, mint_error := mint_error b,
                  updated_at := updated_at b\<rparr> = b"
  using ok row
  by (intro exI [of _ "set_mint_columns st (now w) b"])
     (simp add: updateBatchMintStatus_def db_query_def set_mint_columns_def)

text \<open>The RETRYING write of the retry loop on the minted batch 8 clears its
  transaction hash and block number.\<close>

theorem updateBatchMintStatus_overwrites_witness:
  "map_option tx_hash (batches_tbl mint_world 8) = Some (Some ''0xold'')
   \<and> map_option block_number (batches_tbl mint_world 8) = Some (Some 5)
   \<and> map_option tx_hash (batches_tbl (snd (updateBatchMintStatus 8
        \<lparr>st_mintStatus = Some RETRYING, st_txHash = None, st_blockNumber = None,
         st_retryCount = Some 2, st_lastAttempt = Some 1000, st_error = Some ''timeout''\<rparr>
        mint_world)) 8) = Some None
   \<and> map_option block_number (batches_tbl (snd (updateBatchMintStatus 8
        \<lparr>st_mintStatus = Some RETRYING, st_txHash = None, st_blockNumber = None,
         st_retryCount = Some 2, st_lastAttempt = Some 1000, st_error = Some ''timeout''\<rparr>
        mint_world)) 8) = Some None
   \<and> map_option mint_status (batches_tbl (snd (updateBatchMintStatus 8
        \<lparr>st_mintStatus = Some RETRYING, st_txHash = None, st_blockNumber = None,
         st_retryCount = Some 2, st_lastAttempt = Some 1000, st_error = Some ''timeout''\<rparr>
        mint_world)) 8) = Some (Some RETRYING)"
proof -
  let ?st = "\<lparr>st_mintStatus = Some RETRYING, st_txHash = None, st_blockNumber = None,
         st_retryCount = Some 2, st_lastAttempt = Some 1000, st_error = Some ''timeout''\<rparr>"
  let ?b = "verified_batch\<lparr>mint_status := Some MINTED, tx_hash := Some ''0xold'',
                                 block_number := Some 5\<rparr>"
  have ok: "\<not> db_fault mint_world (db_calls mint_world)"
    by (simp add: mint_world_def example_world_def)
  have row: "batches_tbl mint_world 8 = Some ?b"
    by (simp add: mint_world_def)
  from updateBatchMintStatus_overwrites [OF ok row, of ?st]
  obtain b' where u: "updateBatchMintStatus 8 ?st mint_world
                = (Inr (), mint_world\<lparr>db_calls := Suc (db_calls mint_world),
                              batches_tbl := (batches_tbl mint_world)(8 \<mapsto> b')\<rparr>)"
    and f: "mint_status b' = st_mintStatus ?st" "tx_hash b' = or_null_string (st_txHash ?st)"
      "block_number b' = or_null_nat (st_blockNumber ?st)"
    by blast
  show ?thesis by (simp add: u f row)
qed

section \<open>Batch mint orchestrator\<close>

lemma updateBatchMintStatus_eq:
  "updateBatchMintStatus bid st w =
     (if db_fault w (db_calls w)
      then (Inl (OtherError ''query failed''), w\<lparr>db_calls := Suc (db_calls w)\<rparr>)
      else (Inr (), w\<lparr>db_calls := Suc (db_calls w),
                      batches_tbl :=
                        (case batches_tbl w bid of
                           None \<Rightarrow> batches_tbl w
                         | Some b \<Rightarrow> (batches_tbl w)(bid \<mapsto> set_mint_columns st (now w) b))\<rparr>))"
  by (simp add: updateBatchMintStatus_def db_query_def split: option.splits)

lemma getBatchForMinting_refuses:
  "\<not> mint_eligible w bid \<Longrightarrow>
     getBatchForMinting bid w = (None, w\<lparr>db_calls := Suc (db_calls w)\<rparr>)"
  by (auto simp add: getBatchForMinting_def db_query_def mint_eligible_def
      split: option.splits bool.splits)

lemma getBatchForMinting_Some:
  "getBatchForMinting bid w = (Some b, w1) \<Longrightarrow>
     batches_tbl w bid = Some b \<and> mint_eligible w bid \<and> w1 = w\<lparr>db_calls := Suc (db_calls w)\<rparr>"
  by (auto simp add: getBatchForMinting_def db_query_def mint_eligible_def
      split: option.splits if_splits bool.splits)

lemma getUserAddresses_frame:
  "getUserAddresses c r w = (x, w1) \<Longrightarrow> w1 = w\<lparr>db_calls := Suc (db_calls w)\<rparr>"
  by (auto simp add: getUserAddresses_def db_query_def Let_def
      split: option.splits if_splits prod.splits bool.splits)

lemma executeMintTransaction_frame:
  "executeMintTransaction request w = (x, w1) \<Longrightarrow>
     w1 = w\<lparr>mint_attempts := mint_attempts w @ [request]\<rparr>"
  by (auto simp add: executeMintTransaction_def Let_def split: chain_outcome.splits)

lemma mint_failed_not_success:
  "mint_failed bid rc le w = (Inr r, w1) \<Longrightarrow> \<not> success r"
  by (auto simp add: mint_failed_def updateBatchMintStatus_eq split: if_splits)

lemma mint_attempt_Returned:
  assumes "mint_attempt bid request rc w = (Returned res, w1)"
      and "batches_tbl w bid \<noteq> None"
  shows "\<exists>b. batches_tbl w1 bid = Some b \<and> mint_status b = Some MINTED"
  using assms
  by (auto simp add: mint_attempt_def updateBatchMintStatus_eq set_mint_columns_def Let_def
      dest!: executeMintTransaction_frame
      split: prod.splits sum.splits if_splits)

lemma mint_attempt_Continued:
  assumes "mint_attempt bid request rc w = (Continued e, w1)"
      and "batches_tbl w bid \<noteq> None"
  shows "batches_tbl w1 bid \<noteq> None"
  using assms
  by (auto simp add: mint_attempt_def updateBatchMintStatus_eq sleep_def Let_def
      dest!: executeMintTransaction_frame
      split: prod.splits sum.splits if_splits)

lemma mint_loop_success:
  "mint_loop bid request rc le w = (Inr r, w') \<Longrightarrow> success r \<Longrightarrow> batches_tbl w bid \<noteq> None
     \<Longrightarrow> \<exists>b. batches_tbl w' bid = Some b \<and> mint_status b = Some MINTED"
proof (induction bid request rc le w rule: mint_loop.induct)
  case (1 bid request rc lastError w)
  show ?case
  proof (cases "rc < MAX_RETRIES")
    case False
    with "1.prems" show ?thesis
      by (auto simp add: mint_loop.simps dest: mint_failed_not_success)
  next
    case True
    obtain out w1 where a: "mint_attempt bid request rc w = (out, w1)"
      by (cases "mint_attempt bid request rc w")
    show ?thesis
    proof (cases out)
      case (Returned res)
      with a True "1.prems" have "w' = w1"
        by (simp add: mint_loop.simps)
      with mint_attempt_Returned [OF a [unfolded Returned] "1.prems"(3)] show ?thesis by simp
    next
      case (Threw e)
      with a True "1.prems" show ?thesis by (simp add: mint_loop.simps)
    next
      case (Broke e)
      with a True "1.prems" show ?thesis
        by (auto simp add: mint_loop.simps dest: mint_failed_not_success)
    next
      case (Continued e)
      with a True "1.prems" have l: "mint_loop bid request (Suc rc) (Some e) w1 = (Inr r, w')"
        by (simp add: mint_loop.simps)
      from mint_attempt_Continued [OF a [unfolded Continued] "1.prems"(3)]
      have "batches_tbl w1 bid \<noteq> None" .
      from "1.IH" [OF True a [unfolded Continued, symmetric] refl l "1.prems"(2) this]
      show ?thesis .
    qed
  qed
qed

lemma triggerMint_refuses:
  assumes "\<not> mint_eligible w bid"
  shows "triggerMint bid w
           = (Inr (failure ''Batch not found or not in APPROVED status''),
              w\<lparr>db_calls := Suc (db_calls w)\<rparr>)"
  by (simp add: triggerMint_def getBatchForMinting_refuses [OF assms])

lemma triggerMint_success_minted:
  assumes "triggerMint bid w = (Inr r, w')" and "success r"
  shows "\<exists>b. batches_tbl w' bid = Some b \<and> mint_status b = Some MINTED"
proof (cases "getBatchForMinting bid w")
  case (Pair ob w1)
  show ?thesis
  proof (cases ob)
    case None
    with Pair assms show ?thesis by (auto simp add: triggerMint_def failure_def)
  next
    case (Some batch)
    from getBatchForMinting_Some [OF Pair [unfolded Some]]
    have row: "batches_tbl w bid = Some batch" and w1: "w1 = w\<lparr>db_calls := Suc (db_calls w)\<rparr>"
      by simp_all
    obtain x w2 where ua: "getUserAddresses (collector_id batch) (recycler_id batch) w1 = (x, w2)"
      by (cases "getUserAddresses (collector_id batch) (recycler_id batch) w1")
    from getUserAddresses_frame [OF ua] w1 row have row2: "batches_tbl w2 bid = Some batch"
      by simp
    show ?thesis
    proof (cases x)
      case (Inl e)
      with Pair Some ua assms show ?thesis by (auto simp add: triggerMint_def failure_def)
    next
      case (Inr addrs)
      obtain ca ra where addrs: "addrs = (ca, ra)" by (cases addrs)
      let ?st = "\<lparr>st_mintStatus = Some PENDING_MINT, st_txHash = None,
                  st_blockNumber = None, st_retryCount = Some 0,
                  st_lastAttempt = Some (now w2), st_error = None\<rparr>"
      obtain y w3 where up: "updateBatchMintStatus bid ?st w2 = (y, w3)"
        by (cases "updateBatchMintStatus bid ?st w2")
      show ?thesis
      proof (cases y)
        case (Inl e)
        with Pair Some ua Inr addrs up assms show ?thesis by (auto simp add: triggerMint_def)
      next
        case Inr2: (Inr u)
        from up Inr2 row2 have row3: "batches_tbl w3 bid \<noteq> None"
          by (auto simp add: updateBatchMintStatus_eq split: if_splits)
        from Pair Some ua Inr addrs up Inr2 assms(1)
        have "mint_loop bid
                \<lparr>req_batchId = bid, collectorAddress = ca, recyclerAddress = ra,
                 weightAmount = total_weight_grams batch,
                 ipfsHash = ipfs_proof_hash batch\<rparr> 0 None w3 = (Inr r, w')"
          by (simp add: triggerMint_def)
        from mint_loop_success [OF this assms(2) row3] show ?thesis .
      qed
    qed
  qed
qed

text \<open>
  Claim C2. \<open>triggerMint\<close> on a batch that is not eligible (absent, not verified, or
  with a mint status other than null and FAILED\_ON\_CHAIN) returns an unsuccessful result,
  writes nothing to the batches and makes no mint attempt; so a mint attempt is made only
  for an eligible batch. After a call that returned success the batch is no longer
  eligible, so a second call refuses.
\<close>

theorem triggerMint_only_when_eligible:
  "(\<not> mint_eligible w bid \<longrightarrow>
      (\<exists>r. fst (triggerMint bid w) = Inr r \<and> \<not> success r)
      \<and> batches_tbl (snd (triggerMint bid w)) = batches_tbl w
      \<and> mint_attempts (snd (triggerMint bid w)) = mint_attempts w)
   \<and> (mint_attempts (snd (triggerMint bid w)) \<noteq> mint_attempts w \<longrightarrow> mint_eligible w bid)
   \<and> (\<forall>r. fst (triggerMint bid w) = Inr r \<and> success r \<longrightarrow>
          \<not> mint_eligible (snd (triggerMint bid w)) bid)"
proof -
  have a: "(\<exists>r. fst (triggerMint bid w) = Inr r \<and> \<not> success r)
      \<and> batches_tbl (snd (triggerMint bid w)) = batches_tbl w
      \<and> mint_attempts (snd (triggerMint bid w)) = mint_attempts w"
    if "\<not> mint_eligible w bid"
    by (simp add: triggerMint_refuses [OF that] failure_def)
  have c: "\<not> mint_eligible (snd (triggerMint bid w)) bid"
    if "fst (triggerMint bid w) = Inr r \<and> success r" for r
  proof -
    from that have "triggerMint bid w = (Inr r, snd (triggerMint bid w))"
      by (cases "triggerMint bid w") simp
    from triggerMint_success_minted [OF this] that show ?thesis
      by (auto simp add: mint_eligible_def)
  qed
  from a c show ?thesis by blast
qed

text \<open>In the example world of the verified batches: the minted batch 8 is refused
  without any attempt, and after the successful mint of batch 7 the batch is not eligible
  any more.\<close>

theorem triggerMint_only_when_eligible_witness:
  "(\<exists>r. fst (triggerMint 8 mint_world) = Inr r \<and> \<not> success r)
   \<and> mint_attempts (snd (triggerMint 8 mint_world)) = []
   \<and> (\<exists>r. fst (triggerMint 7 mint_world) = Inr r \<and> success r)
   \<and> \<not> mint_eligible (snd (triggerMint 7 mint_world)) 7"
proof -
  have n8: "\<not> mint_eligible mint_world 8"
    by (simp add: mint_eligible_def mint_world_def)
  have m: "mint_attempts mint_world = []"
    by (simp add: mint_world_def example_world_def)
  have s7: "\<exists>r. fst (triggerMint 7 mint_world) = Inr r \<and> success r"
    by (simp add: triggerMint_def getBatchForMinting_def getUserAddresses_def address_rows_def
        updateBatchMintStatus_eq db_query_def mint_loop.simps mint_attempt_def
        executeMintTransaction_def MAX_RETRIES_def Let_def
        mint_world_def example_world_def verified_batch_def pending_batch_def)
  from triggerMint_only_when_eligible [of mint_world 8]
       triggerMint_only_when_eligible [of mint_world 7] n8 m s7
  show ?thesis by auto
qed

lemma non_retryable_message:
  "non_retryable (classify_error code msg) \<Longrightarrow> error_message (classify_error code msg) \<noteq> []"
  by (auto simp add: classify_error_def split: if_splits)

lemma non_retryable_break:
  assumes rc: "rc < MAX_RETRIES"
      and thrown: "chain w (length (mint_attempts w)) = Thrown code msg"
      and nr: "non_retryable (classify_error code msg)"
      and row: "batches_tbl w bid = Some b"
      and ok: "\<not> db_fault w (db_calls w)"
  shows "mint_loop bid request rc lastError w =
           (Inr \<lparr>success = False, transactionHash = None, blockNumber = None, gasUsed = None,
                 error = Some (''Failed after '' @ show_nat (Suc rc) @ '' retries: '' @
                               error_message (classify_error code msg)),
                 retryCount = Some (Suc rc)\<rparr>,
            w\<lparr>mint_attempts := mint_attempts w @ [request],
              db_calls := Suc (db_calls w),
              batches_tbl := (batches_tbl w)(bid \<mapsto>
                b\<lparr>mint_status := Some FAILED_ON_CHAIN, tx_hash := None, block_number := None,
                  retry_count := Some (Suc rc), last_attempt := Some (now w),
                  mint_error := Some (error_message (classify_error code msg)),
                  updated_at := now w\<rparr>)\<rparr>)"
proof -
  have ex: "executeMintTransaction request w
      = (Inl (classify_error code msg), w\<lparr>mint_attempts := mint_attempts w @ [request]\<rparr>)"
    using thrown by (simp add: executeMintTransaction_def Let_def)
  have at: "mint_attempt bid request rc w
      = (Broke (classify_error code msg), w\<lparr>mint_attempts := mint_attempts w @ [request]\<rparr>)"
    using nr by (simp add: mint_attempt_def ex Let_def)
  have "mint_loop bid request rc lastError w
      = mint_failed bid (Suc rc) (Some (classify_error code msg))
          (w\<lparr>mint_attempts := mint_attempts w @ [request]\<rparr>)"
    using rc by (simp add: mint_loop.simps at)
  then show ?thesis
    using row ok non_retryable_message [OF nr]
    by (simp add: mint_failed_def updateBatchMintStatus_eq set_mint_columns_def)
qed

text \<open>
  Claim C4, as stated, fails on the retry count. In the example world whose contract
  reverts, the first attempt of \<open>triggerMint\<close> on batch 7 is the only one, made with a
  retry count of 0, and the batch is persisted as FAILED\_ON\_CHAIN with a retry count of
  1: the \<^verbatim>\<open>catch\<close> block increments the counter before it tests whether the error is
  retryable.
\<close>

theorem triggerMint_revert_counterexample:
  "length (mint_attempts (snd (triggerMint 7 revert_world))) = 1
   \<and> map_option mint_status (batches_tbl (snd (triggerMint 7 revert_world)) 7)
       = Some (Some FAILED_ON_CHAIN)
   \<and> map_option retry_count (batches_tbl (snd (triggerMint 7 revert_world)) 7)
       = Some (Some 1)
   \<and> fst (triggerMint 7 revert_world)
       = Inr \<lparr>success = False, transactionHash = None, blockNumber = None, gasUsed = None,
              error = Some ''Failed after 1 retries: Contract revert: execution reverted'',
              retryCount = Some 1\<rparr>"
  by (simp add: triggerMint_def getBatchForMinting_def getUserAddresses_def address_rows_def
      updateBatchMintStatus_eq db_query_def set_mint_columns_def Let_def
      mint_loop.simps mint_attempt_def mint_failed_def executeMintTransaction_def
      classify_error_def show_nat.simps MAX_RETRIES_def
      revert_world_def mint_world_def example_world_def verified_batch_def pending_batch_def)

text \<open>
  Claim C4, amended. When an attempt of the retry loop fails with a non-retryable error
  (the contract reverts, the funds are insufficient), the loop ends with that attempt:
  no further attempt is made and the only write is the final one, which persists the
  batch as FAILED\_ON\_CHAIN with the error text and with the retry count incremented once
  for the failed attempt (the number of failed attempts, this one included); no RETRYING
  status is written for that error.
\<close>

theorem non_retryable_aborts:
  assumes "rc < MAX_RETRIES"
      and "chain w (length (mint_attempts w)) = Thrown code msg"
      and "non_retryable (classify_error code msg)"
      and "batches_tbl w bid = Some b"
      and "\<not> db_fault w (db_calls w)"
  shows "\<exists>r w' b'. mint_loop bid request rc lastError w = (Inr r, w')
           \<and> \<not> success r \<and> retryCount r = Some (Suc rc)
           \<and> mint_attempts w' = mint_attempts w @ [request]
           \<and> db_calls w' = Suc (db_calls w)
           \<and> batches_tbl w' = (batches_tbl w)(bid \<mapsto> b')
           \<and> mint_status b' = Some FAILED_ON_CHAIN
           \<and> retry_count b' = Some (Suc rc)
           \<and> mint_error b' = Some (error_message (classify_error code msg))"
proof -
  let ?e = "classify_error code msg"
  let ?r = "\<lparr>success = False, transactionHash = None, blockNumber = None, gasUsed = None,
                 error = Some (''Failed after '' @ show_nat (Suc rc) @ '' retries: '' @
                               error_message ?e),
                 retryCount = Some (Suc rc)\<rparr>"
  let ?b' = "b\<lparr>mint_status := Some FAILED_ON_CHAIN, tx_hash := None, block_number := None,
                  retry_count := Some (Suc rc), last_attempt := Some (now w),
                  mint_error := Some (error_message ?e), updated_at := now w\<rparr>"
  let ?w' = "w\<lparr>mint_attempts := mint_attempts w @ [request],
              db_calls := Suc (db_calls w),
              batches_tbl := (batches_tbl w)(bid \<mapsto> ?b')\<rparr>"
  have "mint_loop bid request rc lastError w = (Inr ?r, ?w')"
    by (rule non_retryable_break [OF assms])
  then show ?thesis
    by (intro exI [of _ ?r] exI [of _ ?w'] exI [of _ ?b']) simp
qed

text \<open>The second attempt (retry count 1) in the world of the reverting contract: one more
  attempt, and the batch is persisted with a retry count of 2.\<close>

theorem non_retryable_aborts_witness:
  "\<exists>r w'. mint_loop 7 \<lparr>req_batchId = 7, collectorAddress = ''0xC0'',
                        recyclerAddress = ''0xEC'', weightAmount = 950,
                        ipfsHash = Some ''QmProof''\<rparr> 1 None revert_world = (Inr r, w')
         \<and> retryCount r = Some 2
         \<and> length (mint_attempts w') = 1
         \<and> map_option retry_count (batches_tbl w' 7) = Some (Some 2)
         \<and> map_option mint_status (batches_tbl w' 7) = Some (Some FAILED_ON_CHAIN)"
proof -
  have rc: "1 < MAX_RETRIES" by (simp add: MAX_RETRIES_def)
  have thrown: "chain revert_world (length (mint_attempts revert_world))
      = Thrown None ''execution reverted''"
    by (simp add: revert_world_def mint_world_def example_world_def)
  have nr: "non_retryable (classify_error None ''execution reverted'')"
    by (simp add: classify_error_def)
  have row: "batches_tbl revert_world 7 = Some verified_batch"
    by (simp add: revert_world_def mint_world_def)
  have ok: "\<not> db_fault revert_world (db_calls revert_world)"
    by (simp add: revert_world_def mint_world_def example_world_def)
  have m: "mint_attempts revert_world = []"
    by (simp add: revert_world_def mint_world_def example_world_def)
  from non_retryable_aborts [OF rc thrown nr row ok]
  show ?thesis by (fastforce simp add: m)
qed

section \<open>Verification flow of the controller\<close>

lemma getBatchById_Some:
  "getBatchById bid w = (Some b, w1) \<Longrightarrow>
     batches_tbl w bid = Some b \<and> w1 = w\<lparr>db_calls := Suc (db_calls w)\<rparr>"
  by (auto simp add: getBatchById_def db_query_def split: option.splits if_splits bool.splits)

lemma verifyBatchWeight_batches:
  "batches_tbl (snd (verifyBatchWeight p w)) = batches_tbl w
   \<and> now (snd (verifyBatchWeight p w)) = now w"
  by (simp add: verifyBatchWeight_def verifyBatchWeight_try_def getBatchTransactionSummary_eq
      logVerificationAttempt_def logVerificationAttempt_try_def db_query_def Let_def
      split: option.splits bool.splits)

lemma updateBatchVerification_Inr:
  "updateBatchVerification bid p w = (Inr r, w') \<Longrightarrow> batches_tbl w bid = Some b \<Longrightarrow>
     batches_tbl w' = (batches_tbl w)(bid \<mapsto> set_verification_columns p (now w) b)"
  by (auto simp add: updateBatchVerification_def db_query_def Let_def split: bool.splits)

lemma logBatchActivity_batches [simp]:
  "batches_tbl (logBatchActivity bid rid act d w) = batches_tbl w"
  by (simp add: logBatchActivity_def db_query_def split: bool.splits)

lemma verifyBatchWeight_original:
  assumes "\<not> db_fault w (db_calls w)" and "batches_tbl w (batch_id p) \<noteq> None"
  shows "originalWeight (fst (verifyBatchWeight p w)) = sum_list (member_weights w (batch_id p))"
  using assms
  by (cases "member_weights w (batch_id p) = []")
     (auto simp add: verifyBatchWeight_def verifyBatchWeight_try_def
        getBatchTransactionSummary_eq rejected_result_def Let_def)

lemma member_weights_batches [simp]:
  "member_weights (w\<lparr>batches_tbl := m\<rparr>) c = member_weights w c"
  by (simp add: member_weights_def)

lemma verifyBatchWeight_ignores_stored_total:
  assumes "batches_tbl w k = Some b"
  shows "fst (verifyBatchWeight p
            (w\<lparr>batches_tbl := (batches_tbl w)(k \<mapsto> b\<lparr>total_weight_grams := x\<rparr>)\<rparr>))
         = fst (verifyBatchWeight p w)"
proof -
  let ?w = "w\<lparr>batches_tbl := (batches_tbl w)(k \<mapsto> b\<lparr>total_weight_grams := x\<rparr>)\<rparr>"
  show ?thesis
  proof (cases "db_fault w (db_calls w)")
    case True
    then show ?thesis
      by (simp add: verifyBatchWeight_def verifyBatchWeight_try_def
          getBatchTransactionSummary_eq)
  next
    case False
    show ?thesis
    proof (cases "batches_tbl w (batch_id p)")
      case None
      with assms False show ?thesis
        by (auto simp add: verifyBatchWeight_def verifyBatchWeight_try_def
            getBatchTransactionSummary_eq)
    next
      case (Some row)
      with assms False show ?thesis
        by (cases "member_weights w (batch_id p) = []"; cases "batch_id p = k")
           (simp_all add: verifyBatchWeight_def verifyBatchWeight_try_def
              getBatchTransactionSummary_eq Let_def)
    qed
  qed
qed

lemma verifyBatch_200:
  assumes "http_status (fst (verifyBatch rq w)) = 200"
  obtains u batch p t where
    "rq_user rq = Some u"
    and "batches_tbl w (nat (rq_batch_id rq)) = Some batch"
    and "uv_verified_weight_total p = rq_verified_weight_total rq"
    and "batches_tbl (snd (verifyBatch rq w))
           = (batches_tbl w)(nat (rq_batch_id rq) \<mapsto> set_verification_columns p t batch)"
    and "resp_verification (fst (verifyBatch rq w))
           = Some (fst (verifyBatchWeight
               \<lparr>batch_id = nat (rq_batch_id rq),
                verified_weight_total = rq_verified_weight_total rq,
                recycler_id_param = au_id u\<rparr> (w\<lparr>db_calls := Suc (db_calls w)\<rparr>)))"
proof (cases "rq_user rq")
  case None
  with assms show ?thesis
    by (simp add: verifyBatch_def verifyBatch_try_def error_response_def)
next
  case (Some u)
  let ?bid = "nat (rq_batch_id rq)"
  from assms Some have role: "au_role u = recycler"
    and valid: "validateVerifyBatchRequest rq = []"
    by (auto simp add: verifyBatch_def verifyBatch_try_def error_response_def
        split: if_splits)
  obtain ob w1 where g: "getBatchById ?bid w = (ob, w1)"
    by (cases "getBatchById ?bid w")
  from assms Some role valid g obtain batch where ob: "ob = Some batch"
    by (cases ob) (auto simp add: verifyBatch_def verifyBatch_try_def error_response_def Let_def)
  from getBatchById_Some [OF g [unfolded ob]]
  have row: "batches_tbl w ?bid = Some batch" and w1: "w1 = w\<lparr>db_calls := Suc (db_calls w)\<rparr>"
    by simp_all
  from assms Some role valid g ob have pend: "verification_status batch = pending"
    by (auto simp add: verifyBatch_def verifyBatch_try_def error_response_def Let_def
        split: if_splits)
  let ?p = "\<lparr>batch_id = ?bid, verified_weight_total = rq_verified_weight_total rq,
             recycler_id_param = au_id u\<rparr>"
  obtain vr w2 where v: "verifyBatchWeight ?p w1 = (vr, w2)"
    by (cases "verifyBatchWeight ?p w1")
  from verifyBatchWeight_batches [of ?p w1] v row w1
  have row2: "batches_tbl w2 ?bid = Some batch" and b2: "batches_tbl w2 = batches_tbl w"
    by simp_all
  let ?P = "\<lparr>uv_recycler_id = au_id u,
              uv_verified_weight_total = rq_verified_weight_total rq,
              uv_ipfs_proof_hash = rq_ipfs_proof_hash rq,
              uv_proof_type = (case or_null_string (rq_proof_type rq) of
                                 None \<Rightarrow> ''photo'' | Some t \<Rightarrow> t),
              uv_verification_notes = rq_verification_notes rq,
              uv_verification_status =
                (if wstatus vr = APPROVED then verified
                 else if wstatus vr = FLAGGED then pending else rejected),
              uv_rejection_reason = (if wstatus vr = REJECTED then Some (message vr) else None),
              uv_weight_difference_percentage = Some (weightDifferencePercentage vr),
              uv_blockchain_batch_id =
                (if wstatus vr = APPROVED then Some (fresh_batch_id w2) else None)\<rparr>"
  obtain y w3 where up: "updateBatchVerification ?bid ?P w2 = (y, w3)"
    by (cases "updateBatchVerification ?bid ?P w2")
  from assms Some role valid g ob pend v up obtain ub where y: "y = Inr ub"
    by (cases y) (auto simp add: verifyBatch_def verifyBatch_try_def error_response_def Let_def)
  from updateBatchVerification_Inr [OF up [unfolded y] row2]
  have b3: "batches_tbl w3 = (batches_tbl w)(?bid \<mapsto> set_verification_columns ?P (now w2) batch)"
    by (simp add: b2)
  have res: "batches_tbl (snd (verifyBatch rq w))
          = (batches_tbl w)(?bid \<mapsto> set_verification_columns ?P (now w2) batch)
      \<and> resp_verification (fst (verifyBatch rq w)) = Some vr"
    using Some role valid g ob pend v up y b3
    by (simp add: verifyBatch_def verifyBatch_try_def Let_def)
  have vr: "vr = fst (verifyBatchWeight ?p (w\<lparr>db_calls := Suc (db_calls w)\<rparr>))"
    using v w1 by simp
  show ?thesis
  proof (rule that [of u batch ?P "now w2"])
    show "rq_user rq = Some u" by (rule Some)
    show "batches_tbl w ?bid = Some batch" by (rule row)
    show "uv_verified_weight_total ?P = rq_verified_weight_total rq" by simp
    show "batches_tbl (snd (verifyBatch rq w))
           = (batches_tbl w)(?bid \<mapsto> set_verification_columns ?P (now w2) batch)"
      using res by simp
    show "resp_verification (fst (verifyBatch rq w)) = Some (fst (verifyBatchWeight ?p
               (w\<lparr>db_calls := Suc (db_calls w)\<rparr>)))"
      using res vr by simp
  qed
qed

text \<open>
  Claim C3, as stated, fails: the write-back stores the verified weight, not the sum. In
  the example world the recycler verifies batch 7 (600 g + 400 g) at 950 g; the batch is
  approved and its stored total weight is 950, where the recomputed sum is 1000.
\<close>

theorem verifyBatch_total_weight_counterexample:
  "http_status (fst (verifyBatch example_request example_world)) = 200
   \<and> map_option wstatus (resp_verification (fst (verifyBatch example_request example_world)))
       = Some APPROVED
   \<and> sum_list (member_weights example_world 7) = 1000
   \<and> map_option total_weight_grams
         (batches_tbl (snd (verifyBatch example_request example_world)) 7) = Some 950"
  by (simp add: verifyBatch_def verifyBatch_try_def validateVerifyBatchRequest_def
      getBatchById_def verifyBatchWeight_def verifyBatchWeight_try_def
      getBatchTransactionSummary_eq logVerificationAttempt_def logVerificationAttempt_try_def
      updateBatchVerification_def set_verification_columns_def logBatchActivity_def
      db_query_def member_weights_def TOLERANCE_PERCENTAGE_def Let_def
      example_request_def example_world_def pending_batch_def)

text \<open>
  Claim C3, amended. The verification recomputes the sum of the member transactions'
  weights from the transaction set: the stored total weight of a batch does not enter the
  result of \<open>verifyBatchWeight\<close>, and when the summary query succeeds the original
  weight reported by a completed verification is that sum. Once the result is written
  back, the stored total weight of the batch is the verified weight supplied by the
  recycler.
\<close>

theorem verifyBatch_stores_verified_weight:
  assumes "http_status (fst (verifyBatch rq w)) = 200"
  shows "map_option total_weight_grams
           (batches_tbl (snd (verifyBatch rq w)) (nat (rq_batch_id rq)))
           = Some (rq_verified_weight_total rq)
       \<and> (\<not> db_fault w (Suc (db_calls w)) \<longrightarrow>
            map_option originalWeight (resp_verification (fst (verifyBatch rq w)))
              = Some (sum_list (member_weights w (nat (rq_batch_id rq)))))
       \<and> (\<forall>k b x p. batches_tbl w k = Some b \<longrightarrow>
            fst (verifyBatchWeight p
                   (w\<lparr>batches_tbl := (batches_tbl w)(k \<mapsto> b\<lparr>total_weight_grams := x\<rparr>)\<rparr>))
              = fst (verifyBatchWeight p w))"
proof -
  let ?bid = "nat (rq_batch_id rq)"
  from assms obtain u batch p t where
    usr: "rq_user rq = Some u"
    and row: "batches_tbl w ?bid = Some batch"
    and p: "uv_verified_weight_total p = rq_verified_weight_total rq"
    and b: "batches_tbl (snd (verifyBatch rq w))
             = (batches_tbl w)(?bid \<mapsto> set_verification_columns p t batch)"
    and r: "resp_verification (fst (verifyBatch rq w))
             = Some (fst (verifyBatchWeight
                 \<lparr>batch_id = ?bid, verified_weight_total = rq_verified_weight_total rq,
                  recycler_id_param = au_id u\<rparr> (w\<lparr>db_calls := Suc (db_calls w)\<rparr>)))"
    by (rule verifyBatch_200)
  have a: "map_option total_weight_grams (batches_tbl (snd (verifyBatch rq w)) ?bid)
           = Some (rq_verified_weight_total rq)"
    by (simp add: b p set_verification_columns_def)
  have c: "map_option originalWeight (resp_verification (fst (verifyBatch rq w)))
              = Some (sum_list (member_weights w ?bid))"
    if "\<not> db_fault w (Suc (db_calls w))"
    using that row
      verifyBatchWeight_original [of "w\<lparr>db_calls := Suc (db_calls w)\<rparr>"
        "\<lparr>batch_id = ?bid, verified_weight_total = rq_verified_weight_total rq,
          recycler_id_param = au_id u\<rparr>"]
    by (simp add: r)
  have d: "\<forall>k b x p. batches_tbl w k = Some b \<longrightarrow>
            fst (verifyBatchWeight p
                   (w\<lparr>batches_tbl := (batches_tbl w)(k \<mapsto> b\<lparr>total_weight_grams := x\<rparr>)\<rparr>))
              = fst (verifyBatchWeight p w)"
    by (intro allI impI) (rule verifyBatchWeight_ignores_stored_total)
  show ?thesis
  proof (intro conjI)
    show "map_option total_weight_grams (batches_tbl (snd (verifyBatch rq w)) ?bid)
           = Some (rq_verified_weight_total rq)" by (rule a)
    show "\<not> db_fault w (Suc (db_calls w)) \<longrightarrow>
            map_option originalWeight (resp_verification (fst (verifyBatch rq w)))
              = Some (sum_list (member_weights w ?bid))" using c by (rule impI)
    show "\<forall>k b x p. batches_tbl w k = Some b \<longrightarrow>
            fst (verifyBatchWeight p
                   (w\<lparr>batches_tbl := (batches_tbl w)(k \<mapsto> b\<lparr>total_weight_grams := x\<rparr>)\<rparr>))
              = fst (verifyBatchWeight p w)" by (rule d)
  qed
qed

text \<open>The recycler's request in the example world: the stored total becomes 950 and the
  reported original weight is the recomputed 1000.\<close>

theorem verifyBatch_stores_verified_weight_witness:
  "map_option total_weight_grams
     (batches_tbl (snd (verifyBatch example_request example_world)) 7) = Some 950
   \<and> map_option originalWeight (resp_verification (fst (verifyBatch example_request example_world)))
       = Some 1000"
proof -
  have h: "http_status (fst (verifyBatch example_request example_world)) = 200"
    by (simp add: verifyBatch_def verifyBatch_try_def validateVerifyBatchRequest_def
        getBatchById_def verifyBatchWeight_def verifyBatchWeight_try_def
        getBatchTransactionSummary_eq logVerificationAttempt_def logVerificationAttempt_try_def
        updateBatchVerification_def set_verification_columns_def logBatchActivity_def
        db_query_def member_weights_def TOLERANCE_PERCENTAGE_def Let_def
        example_request_def example_world_def pending_batch_def)
  have f: "\<not> db_fault example_world (Suc (db_calls example_world))"
    by (simp add: example_world_def)
  have m: "member_weights example_world 7 = [600, 400]"
    by (simp add: member_weights_def example_world_def)
  have q: "nat (rq_batch_id example_request) = 7"
    "rq_verified_weight_total example_request = 950"
    by (simp_all add: example_request_def)
  from verifyBatch_stores_verified_weight [OF h] f
  show ?thesis by (simp add: m q)
qed

section \<open>Reward allocator\<close>

text \<open>
  Claim C7. For every verified weight and transaction count, \<open>calculateEIURewards\<close>
  takes a tenth of the weight as the base amount, gives 85\%, 10\% and 5\% of it to the
  citizen, the collector and the recycler, adds to these shares 60\%, 30\% and 10\% of the
  volume bonus, and returns base plus bonus as the total. For 10000 grams in 10
  transactions the shares are 850, 100 and 50 and the total is 1000.
\<close>

theorem calculateEIURewards_split:
  "citizenRewards (calculateEIURewards v n)
     = (v * (1 / 10)) * (85 / 100) + spec_volume_bonus (v * (1 / 10)) n * (60 / 100)
   \<and> collectorBonus (calculateEIURewards v n)
     = (v * (1 / 10)) * (10 / 100) + spec_volume_bonus (v * (1 / 10)) n * (30 / 100)
   \<and> recyclerReward (calculateEIURewards v n)
     = (v * (1 / 10)) * (5 / 100) + spec_volume_bonus (v * (1 / 10)) n * (10 / 100)
   \<and> totalEIU (calculateEIURewards v n) = v * (1 / 10) + spec_volume_bonus (v * (1 / 10)) n
   \<and> calculateEIURewards 10000 10
     = \<lparr>citizenRewards = 850, collectorBonus = 100, recyclerReward = 50, totalEIU = 1000\<rparr>"
  by (simp add: calculateEIURewards_def spec_volume_bonus_def Let_def)

text \<open>The same at 20000 grams in 60 transactions: a bonus of 100 on a base of 2000.\<close>

theorem calculateEIURewards_split_witness:
  "totalEIU (calculateEIURewards 20000 60) = 2100
   \<and> citizenRewards (calculateEIURewards 20000 60) = 1760
   \<and> collectorBonus (calculateEIURewards 20000 60) = 230
   \<and> recyclerReward (calculateEIURewards 20000 60) = 110"
  using calculateEIURewards_split [of 20000 60]
  by (simp add: spec_volume_bonus_def)

end
